theory Spec2Isabelle
  imports Complex_Main "HOL-Library.Signed_Division"
begin

section \<open>The Constellix HTTP client (client/client.go)\<close>

text \<open>
  A shallow embedding of \<^verbatim>\<open>client/client.go\<close>. Go strings are byte strings, here
  \<^typ>\<open>string\<close>. A Go \<^verbatim>\<open>error\<close> is an \<open>error option\<close>: \<open>None\<close> is \<^verbatim>\<open>nil\<close>,
  \<open>Some msg\<close> an error whose \<^verbatim>\<open>Error()\<close> text is \<open>msg\<close>. A call of the client
  either returns, panics (a failed type assertion, a nil pointer dereference) or ends the
  process through \<^verbatim>\<open>log.Fatal\<close>; the three are the constructors of \<open>outcome\<close>.
  Writing to the log (\<^verbatim>\<open>log.Println\<close>) has no effect on any result and is left out.
\<close>

type_synonym error = string

datatype 'a outcome = Returns 'a | Panics string | Fatal string

subsection \<open>Data\<close>

text \<open>
  What \<^verbatim>\<open>encoding/json\<close> stores in an \<^verbatim>\<open>interface{}\<close>: \<^verbatim>\<open>nil\<close>, \<^verbatim>\<open>bool\<close>,
  \<^verbatim>\<open>float64\<close> (its value is never inspected by the client), \<^verbatim>\<open>string\<close>,
  \<^verbatim>\<open>[]interface{}\<close> and \<^verbatim>\<open>map[string]interface{}\<close>.
\<close>

datatype json =
    JNull
  | JBool bool
  | JNumber rat
  | JString string
  | JArray "json list"
  | JObject "(string \<times> json) list"

text \<open>\<^verbatim>\<open>http.Response\<close>: the status code, and what \<^verbatim>\<open>ioutil.ReadAll(resp.Body)\<close>
  gives, a read error (\<open>Inl\<close>) or the body text (\<open>Inr\<close>).\<close>

record Response =
  StatusCode :: int
  Body :: "error + string"

text \<open>\<^verbatim>\<open>http.Request\<close>, as far as the client sets it. \<open>URL\<close> is the text that the
  client hands to \<^verbatim>\<open>http.NewRequest\<close>, which the library parses and sends in its
  escaped form. \<open>ReqBody\<close> is \<open>None\<close> for the \<^verbatim>\<open>nil\<close> body. Header names are kept as
  the client writes them (HTTP compares them without regard to case).\<close>

record Request =
  Method :: string
  URL :: string
  ReqBody :: "string option"
  Header :: "string \<rightharpoonup> string"

text \<open>
  \<^verbatim>\<open>rate.Limit\<close> and \<^verbatim>\<open>rate.Limiter\<close> of \<^verbatim>\<open>golang.org/x/time/rate\<close>. A finite limit
  built by \<^verbatim>\<open>rate.Every d\<close> is kept as the interval \<open>d\<close> between two events, in
  nanoseconds (the unit of \<^verbatim>\<open>time.Duration\<close>); \<open>Inf_limit\<close> is \<^verbatim>\<open>rate.Inf\<close>.
\<close>

datatype Limit = Inf_limit | EveryNs int

record Limiter =
  limit :: Limit
  burst :: int

text \<open>
  A \<^verbatim>\<open>float32\<close>: not a number, an infinity (\<open>True\<close> for the negative one), or a finite
  value, kept as the rational number it denotes (the two zeros are not told apart; the
  client never divides by one).
\<close>

datatype float32 = NaN | Infinity bool | Finite rat

text \<open>\<^verbatim>\<open>http.Transport\<close> with the \<^verbatim>\<open>tls.Config\<close> the client fills in.\<close>

record Transport =
  CipherSuites :: "string list"
  PreferServerCipherSuites :: bool
  InsecureSkipVerify :: bool
  MinVersion :: string
  MaxVersion :: string
  Proxy :: "string option"

record Client =
  httpclient :: "Transport option"
  rateLimiter :: "Limiter option"
  apiKey :: string
  secretKey :: string
  insecure :: bool
  proxyUrl :: string

text \<open>
  Everything outside the client that a call reads: the clock, the library functions and
  the remote server. \<open>UnixNano\<close> is \<^verbatim>\<open>time.Now().UnixNano()\<close>, an \<^verbatim>\<open>int64\<close>;
  \<open>hmac_sha1 key msg\<close> is the HMAC-SHA1 of \<open>msg\<close> under \<open>key\<close> and \<open>base64_std\<close> is
  \<^verbatim>\<open>base64.StdEncoding.EncodeToString\<close>; \<open>NewRequest_err method url\<close> is the error of
  \<^verbatim>\<open>http.NewRequest\<close>, if any; \<open>url_Parse_err\<close> that of \<^verbatim>\<open>url.Parse\<close>;
  \<open>json_Unmarshal body\<close> is the map \<^verbatim>\<open>data\<close> after
  \<^verbatim>\<open>json.Unmarshal(body, &data)\<close> on a nil \<^verbatim>\<open>map[string]interface{}\<close> (still nil,
  here the empty map, when the body is not a JSON object; the client drops the error);
  \<open>limiter_Wait\<close> is the result of the blocking \<^verbatim>\<open>Wait\<close> on a limiter;
  \<open>httpclient_Do\<close> is the server's answer to a request sent over a transport, or a
  transport error; \<open>out_of_range_int64\<close> is what the platform gives when a
  \<^verbatim>\<open>float32\<close> that no \<^verbatim>\<open>int64\<close> can represent is converted to \<^verbatim>\<open>int64\<close> (Go leaves the
  value to the implementation).
\<close>

record 'obj world =
  UnixNano :: int
  hmac_sha1 :: "string \<Rightarrow> string \<Rightarrow> string"
  base64_std :: "string \<Rightarrow> string"
  NewRequest_err :: "string \<Rightarrow> string \<Rightarrow> error option"
  url_Parse_err :: "string \<Rightarrow> error option"
  json_Marshal :: "'obj \<Rightarrow> error + string"
  json_Unmarshal :: "string \<Rightarrow> (string \<rightharpoonup> json)"
  limiter_Wait :: "Limiter \<Rightarrow> error option"
  httpclient_Do :: "Transport \<Rightarrow> Request \<Rightarrow> error + Response"
  out_of_range_int64 :: "float32 \<Rightarrow> int"

text \<open>The effects of a call that other parties can see, in the order they happen.\<close>

datatype event = EvWait Limiter | EvDo Request

subsection \<open>Constants\<close>

definition BaseURL :: string where
  "BaseURL = ''https://api.dns.constellix.com/''"

definition SonarHost :: string where
  "SonarHost = ''api.sonar.constellix.com''"

text \<open>\<^verbatim>\<open>time.Millisecond\<close> and \<^verbatim>\<open>time.Second\<close>, in nanoseconds.\<close>

definition Millisecond :: int where
  "Millisecond = 1000000"

definition Second :: int where
  "Second = 1000000000"

subsection \<open>Library functions modelled in full\<close>

text \<open>\<^verbatim>\<open>strings.Split(s, "/")\<close>: the pieces of \<open>s\<close> between the separators; a string
  without separator, the empty one too, is one piece.\<close>

fun Split :: "string \<Rightarrow> char \<Rightarrow> string list" where
  "Split [] sep = [[]]"
| "Split (c # cs) sep =
     (if c = sep then [] # Split cs sep
      else (case Split cs sep of
              [] \<Rightarrow> [[c]]
            | piece # pieces \<Rightarrow> (c # piece) # pieces))"

text \<open>\<^verbatim>\<open>strconv.FormatInt(i, 10)\<close>.\<close>

definition digit :: "nat \<Rightarrow> char" where
  "digit d = ''0123456789'' ! d"

fun format_nat :: "nat \<Rightarrow> string" where
  "format_nat n = (if n < 10 then [digit n] else format_nat (n div 10) @ [digit (n mod 10)])"

declare format_nat.simps [simp del]

definition FormatInt :: "int \<Rightarrow> string" where
  "FormatInt i = (if i < 0 then CHR ''-'' # format_nat (nat (- i)) else format_nat (nat i))"

text \<open>
  Arithmetic on \<^verbatim>\<open>float32\<close> (IEEE 754 binary32, round to nearest, ties to even). A
  finite value is a whole number below \<open>2 ^ 24\<close> times a power of two from \<open>2 ^ - 149\<close>
  to \<open>2 ^ 104\<close>. \<open>bitlen n\<close> is the number of binary digits of \<open>n\<close>, \<open>ilog2 a\<close> the
  exponent of the greatest power of two that is at most \<open>a > 0\<close>, and \<open>round32 q\<close> the
  \<^verbatim>\<open>float32\<close> nearest to the exact value \<open>q\<close>.
\<close>

fun bitlen :: "nat \<Rightarrow> nat" where
  "bitlen n = (if n = 0 then 0 else Suc (bitlen (n div 2)))"

declare bitlen.simps [simp del]

definition pow2 :: "int \<Rightarrow> rat" where
  "pow2 k = (if k \<ge> 0 then 2 ^ nat k else 1 / 2 ^ nat (- k))"

definition ilog2 :: "rat \<Rightarrow> int" where
  "ilog2 a =
     (if a \<ge> 1 then int (bitlen (nat \<lfloor>a\<rfloor>)) - 1
      else - int (bitlen (nat (\<lceil>1 / a\<rceil> - 1))))"

definition round_half_even :: "rat \<Rightarrow> int" where
  "round_half_even r =
     (let f = \<lfloor>r\<rfloor>; d = r - of_int f
      in if d < 1 / 2 then f else if d > 1 / 2 then f + 1 else if even f then f else f + 1)"

definition round32 :: "rat \<Rightarrow> float32" where
  "round32 q =
     (if q = 0 then Finite 0
      else let a = \<bar>q\<bar>;
               p = max (ilog2 a - 23) (- 149);
               v = of_int (round_half_even (a / pow2 p)) * pow2 p
           in if v \<ge> pow2 128 then Infinity (q < 0) else Finite (sgn q * v))"

text \<open>The product \<^verbatim>\<open>x * y\<close> and the comparison \<^verbatim>\<open>x >= y\<close> of two \<^verbatim>\<open>float32\<close>.\<close>

definition mul32 :: "float32 \<Rightarrow> float32 \<Rightarrow> float32" where
  "mul32 x y =
     (case (x, y) of
        (Finite a, Finite b) \<Rightarrow> round32 (a * b)
      | (Finite a, Infinity s) \<Rightarrow> (if a = 0 then NaN else Infinity (s \<noteq> (a < 0)))
      | (Infinity s, Finite b) \<Rightarrow> (if b = 0 then NaN else Infinity (s \<noteq> (b < 0)))
      | (Infinity s, Infinity t) \<Rightarrow> Infinity (s \<noteq> t)
      | _ \<Rightarrow> NaN)"

definition ge32 :: "float32 \<Rightarrow> float32 \<Rightarrow> bool" where
  "ge32 x y =
     (case (x, y) of
        (Finite a, Finite b) \<Rightarrow> a \<ge> b
      | (Finite a, Infinity t) \<Rightarrow> t
      | (Infinity s, Finite b) \<Rightarrow> \<not> s
      | (Infinity s, Infinity t) \<Rightarrow> \<not> s \<or> t
      | _ \<Rightarrow> False)"

text \<open>The conversion \<^verbatim>\<open>time.Duration(x)\<close> of a \<^verbatim>\<open>float32\<close> to \<^verbatim>\<open>int64\<close>: the fraction
  is dropped (towards zero); a value that does not fit is left to the platform.\<close>

definition Duration :: "'obj world \<Rightarrow> float32 \<Rightarrow> int" where
  "Duration w x =
     (case x of
        Finite v \<Rightarrow>
          (let t = (if v \<ge> 0 then \<lfloor>v\<rfloor> else \<lceil>v\<rceil>)
           in if - (2 ^ 63) \<le> t \<and> t < 2 ^ 63 then t else out_of_range_int64 w x)
      | _ \<Rightarrow> out_of_range_int64 w x)"

text \<open>\<^verbatim>\<open>rate.Every\<close> and \<^verbatim>\<open>rate.NewLimiter\<close>.\<close>

definition Every :: "int \<Rightarrow> Limit" where
  "Every interval = (if interval \<le> 0 then Inf_limit else EveryNs interval)"

definition NewLimiter :: "Limit \<Rightarrow> int \<Rightarrow> Limiter" where
  "NewLimiter r b = \<lparr>limit = r, burst = b\<rparr>"

subsection \<open>Construction\<close>

definition Insecure :: "bool \<Rightarrow> Client \<Rightarrow> Client" where
  "Insecure b client = client\<lparr>insecure := b\<rparr>"

definition ProxyUrl :: "string \<Rightarrow> Client \<Rightarrow> Client" where
  "ProxyUrl pUrl client = client\<lparr>proxyUrl := pUrl\<rparr>"

text \<open>
  \<^verbatim>\<open>rate.Every(time.Duration(pInterval*1000))\<close>: the product is a \<^verbatim>\<open>float32\<close> product
  (the constant is the \<^verbatim>\<open>float32\<close> 1000), and its conversion counts nanoseconds, the
  unit of \<^verbatim>\<open>time.Duration\<close>.
\<close>

definition RequestInterval :: "'obj world \<Rightarrow> float32 \<Rightarrow> Client \<Rightarrow> Client" where
  "RequestInterval w pInterval client =
     (if ge32 pInterval (Finite 0)
      then client\<lparr>rateLimiter :=
             Some (NewLimiter (Every (Duration w (mul32 pInterval (Finite 1000)))) 1)\<rparr>
      else client)"

definition useInsecureHTTPClient :: "bool \<Rightarrow> Transport" where
  "useInsecureHTTPClient ins =
     \<lparr>CipherSuites =
        [''TLS_ECDHE_RSA_WITH_AES_128_CBC_SHA'',
         ''TLS_ECDHE_RSA_WITH_AES_256_CBC_SHA'',
         ''TLS_ECDHE_RSA_WITH_AES_128_CBC_SHA256'',
         ''TLS_ECDHE_RSA_WITH_AES_128_GCM_SHA256'',
         ''TLS_ECDHE_RSA_WITH_AES_256_GCM_SHA384''],
      PreferServerCipherSuites = True,
      InsecureSkipVerify = ins,
      MinVersion = ''VersionTLS11'',
      MaxVersion = ''VersionTLS12'',
      Proxy = None\<rparr>"

definition configProxy :: "'obj world \<Rightarrow> Client \<Rightarrow> Transport \<Rightarrow> Transport outcome" where
  "configProxy w c transport =
     (case url_Parse_err w (proxyUrl c) of
        Some err \<Rightarrow> Fatal err
      | None \<Rightarrow> Returns (transport\<lparr>Proxy := Some (proxyUrl c)\<rparr>))"

definition initClient ::
  "'obj world \<Rightarrow> string \<Rightarrow> string \<Rightarrow> (Client \<Rightarrow> Client) list \<Rightarrow> Client outcome" where
  "initClient w k s options =
     (let client0 = \<lparr>httpclient = None, rateLimiter = None, apiKey = k, secretKey = s,
                     insecure = False, proxyUrl = []\<rparr>;
          client = foldl (\<lambda>cl option. option cl) client0 options;
          transport = useInsecureHTTPClient (insecure client)
      in if proxyUrl client \<noteq> []
         then (case configProxy w client transport of
                 Returns t \<Rightarrow> Returns (client\<lparr>httpclient := Some t\<rparr>)
               | Panics m \<Rightarrow> Panics m
               | Fatal m \<Rightarrow> Fatal m)
         else Returns (client\<lparr>httpclient := Some transport\<rparr>))"

text \<open>\<^verbatim>\<open>GetClient\<close> also stores the client in the package variable \<^verbatim>\<open>clientImpl\<close>,
  which nothing reads.\<close>

definition GetClient ::
  "'obj world \<Rightarrow> string \<Rightarrow> string \<Rightarrow> (Client \<Rightarrow> Client) list \<Rightarrow> Client outcome" where
  "GetClient w k s options = initClient w k s options"

subsection \<open>Token and request\<close>

text \<open>Go's \<^verbatim>\<open>/\<close> on integers truncates towards zero: \<open>sdiv\<close>.\<close>

definition getToken :: "'obj world \<Rightarrow> string \<Rightarrow> string \<Rightarrow> string" where
  "getToken w k s =
     (let epochTime = FormatInt (UnixNano w sdiv Millisecond);
          sha = base64_std w (hmac_sha1 w s epochTime)
      in k @ '':'' @ sha @ '':'' @ epochTime)"

text \<open>\<^verbatim>\<open>http.NewRequest\<close> puts \<^verbatim>\<open>GET\<close> in the place of an empty method.\<close>

definition makeRequest ::
  "'obj world \<Rightarrow> Client \<Rightarrow> string \<Rightarrow> string \<Rightarrow> string \<Rightarrow> error + Request" where
  "makeRequest w c method endpoint payload =
     (let body = (if method = ''POST'' \<or> method = ''PUT'' then Some payload else None)
      in case NewRequest_err w method endpoint of
           Some err \<Rightarrow> Inl err
         | None \<Rightarrow>
             (let token = getToken w (apiKey c) (secretKey c);
                  h1 = Map.empty(''Content-Type'' \<mapsto> ''application/json'');
                  h2 = h1(''x-cns-security-token'' \<mapsto> token)
              in Inr \<lparr>Method = (if method = [] then ''GET'' else method), URL = endpoint,
                      ReqBody = body, Header = h2\<rparr>))"

subsection \<open>The two error normalizers\<close>

text \<open>Reading a key of a Go map: the zero value, \<^verbatim>\<open>nil\<close>, when the key is absent.\<close>

definition index_map :: "(string \<rightharpoonup> json) \<Rightarrow> string \<Rightarrow> json" where
  "index_map data k = (case data k of None \<Rightarrow> JNull | Some v \<Rightarrow> v)"

text \<open>The loop \<^verbatim>\<open>for _, val := range errors { allErrs = allErrs + val.(string) }\<close>;
  the unchecked assertion \<^verbatim>\<open>val.(string)\<close> panics on anything but a string.\<close>

fun concat_errors :: "string \<Rightarrow> json list \<Rightarrow> string outcome" where
  "concat_errors allErrs [] = Returns allErrs"
| "concat_errors allErrs (val # rest) =
     (case val of
        JString s \<Rightarrow> concat_errors (allErrs @ s) rest
      | _ \<Rightarrow> Panics ''interface conversion: interface {} is not string'')"

definition checkForErrors :: "'obj world \<Rightarrow> Response \<Rightarrow> error option outcome" where
  "checkForErrors w resp =
     (if StatusCode resp \<noteq> 200 then
        (case Body resp of
           Inl err \<Rightarrow> Fatal err
         | Inr bodyString \<Rightarrow>
             (let data = json_Unmarshal w bodyString
              in case index_map data ''errors'' of
                   JArray errors \<Rightarrow>
                     (case concat_errors [] errors of
                        Returns allErrs \<Rightarrow> Returns (Some allErrs)
                      | Panics m \<Rightarrow> Panics m
                      | Fatal m \<Rightarrow> Fatal m)
                 | _ \<Rightarrow> Panics ''interface conversion: interface {} is not []interface {}''))
      else Returns None)"

definition checkForErrorsChecks :: "Response \<Rightarrow> error option outcome" where
  "checkForErrorsChecks resp =
     (if StatusCode resp \<noteq> 200 \<and> StatusCode resp \<noteq> 201 \<and> StatusCode resp \<noteq> 202 then
        (case Body resp of
           Inl err \<Rightarrow> Fatal err
         | Inr bodyString \<Rightarrow> Returns (Some bodyString))
      else Returns None)"

subsection \<open>The four operations\<close>

text \<open>
  Each operation gives the events it caused and its outcome. Calling a method of a nil
  \<^verbatim>\<open>*rate.Limiter\<close> or of a nil \<^verbatim>\<open>*http.Client\<close> dereferences the nil pointer and
  panics.
\<close>

definition nil_dereference :: string where
  "nil_dereference = ''runtime error: invalid memory address or nil pointer dereference''"

definition Save ::
  "'obj world \<Rightarrow> Client \<Rightarrow> 'obj \<Rightarrow> string \<Rightarrow>
     event list \<times> (Response option \<times> error option) outcome" where
  "Save w c obj endpoint =
     (case json_Marshal w obj of
        Inl err \<Rightarrow> ([], Fatal err)
      | Inr jsonPayload \<Rightarrow>
          (let urlArr = Split endpoint CHR ''/'';
               (url, flag) =
                 (if length urlArr > 2 \<and> urlArr ! 2 = SonarHost
                  then (endpoint, True)
                  else (BaseURL @ endpoint, False))
           in case makeRequest w c ''POST'' url jsonPayload of
                Inl err1 \<Rightarrow> ([], Returns (None, Some err1))
              | Inr req \<Rightarrow>
                  (case rateLimiter c of
                     None \<Rightarrow> ([], Panics nil_dereference)
                   | Some rl \<Rightarrow>
                       (case limiter_Wait w rl of
                          Some err \<Rightarrow> ([EvWait rl], Returns (None, Some err))
                        | None \<Rightarrow>
                            (case httpclient c of
                               None \<Rightarrow> ([EvWait rl], Panics nil_dereference)
                             | Some t \<Rightarrow>
                                 (case httpclient_Do w t req of
                                    Inl err2 \<Rightarrow>
                                      ([EvWait rl, EvDo req], Returns (None, Some err2))
                                  | Inr resp \<Rightarrow>
                                      ([EvWait rl, EvDo req],
                                       if flag = False
                                       then map_outcome (Pair (Some resp)) (checkForErrors w resp)
                                       else map_outcome (Pair (Some resp))
                                              (checkForErrorsChecks resp))))))))"

text \<open>The guarded wait of the other three operations:
  \<^verbatim>\<open>if c.rateLimiter != nil { err = c.rateLimiter.Wait(ctx); ... }\<close>. It gives the events
  of the wait and the error of \<^verbatim>\<open>Wait\<close>, if any.\<close>

definition guarded_Wait :: "'obj world \<Rightarrow> Client \<Rightarrow> event list \<times> error option" where
  "guarded_Wait w c =
     (case rateLimiter c of
        None \<Rightarrow> ([], None)
      | Some rl \<Rightarrow> ([EvWait rl], limiter_Wait w rl))"

definition GetbyId ::
  "'obj world \<Rightarrow> Client \<Rightarrow> string \<Rightarrow>
     event list \<times> (Response option \<times> error option) outcome" where
  "GetbyId w c endpoint =
     (let urlArr = Split endpoint CHR ''/'';
          (url, flag) =
            (if length urlArr > 2 \<and> urlArr ! 2 = SonarHost
             then (endpoint, True)
             else (BaseURL @ endpoint, False))
      in case makeRequest w c ''GET'' url [] of
           Inl err \<Rightarrow> ([], Returns (None, Some err))
         | Inr req \<Rightarrow>
             (case guarded_Wait w c of
                (evs, Some err) \<Rightarrow> (evs, Returns (None, Some err))
              | (evs, None) \<Rightarrow>
                  (case httpclient c of
                     None \<Rightarrow> (evs, Panics nil_dereference)
                   | Some t \<Rightarrow>
                       (case httpclient_Do w t req of
                          Inl err1 \<Rightarrow> (evs @ [EvDo req], Returns (None, Some err1))
                        | Inr resp \<Rightarrow>
                            (evs @ [EvDo req],
                             if flag = False
                             then map_outcome (Pair (Some resp)) (checkForErrors w resp)
                             else map_outcome (Pair (Some resp))
                                    (checkForErrorsChecks resp))))))"

definition DeletebyId ::
  "'obj world \<Rightarrow> Client \<Rightarrow> string \<Rightarrow> event list \<times> error option outcome" where
  "DeletebyId w c endpoint =
     (let urlArr = Split endpoint CHR ''/'';
          url =
            (if length urlArr > 2 \<and> urlArr ! 2 = SonarHost
             then endpoint
             else BaseURL @ endpoint)
      in case makeRequest w c ''DELETE'' url [] of
           Inl err \<Rightarrow> ([], Returns (Some err))
         | Inr req \<Rightarrow>
             (case guarded_Wait w c of
                (evs, Some err) \<Rightarrow> (evs, Returns (Some err))
              | (evs, None) \<Rightarrow>
                  (case httpclient c of
                     None \<Rightarrow> (evs, Panics nil_dereference)
                   | Some t \<Rightarrow>
                       (case httpclient_Do w t req of
                          Inl err1 \<Rightarrow> (evs @ [EvDo req], Returns (Some err1))
                        | Inr resp \<Rightarrow> (evs @ [EvDo req], checkForErrorsChecks resp)))))"

definition UpdatebyID ::
  "'obj world \<Rightarrow> Client \<Rightarrow> 'obj \<Rightarrow> string \<Rightarrow>
     event list \<times> (Response option \<times> error option) outcome" where
  "UpdatebyID w c obj endpoint =
     (case json_Marshal w obj of
        Inl err \<Rightarrow> ([], Fatal err)
      | Inr jsonPayload \<Rightarrow>
          (let urlArr = Split endpoint CHR ''/'';
               (url, flag) =
                 (if length urlArr > 2 \<and> urlArr ! 2 = SonarHost
                  then (endpoint, True)
                  else (BaseURL @ endpoint, False))
           in case makeRequest w c ''PUT'' url jsonPayload of
                Inl err1 \<Rightarrow> ([], Returns (None, Some err1))
              | Inr req \<Rightarrow>
                  (case guarded_Wait w c of
                     (evs, Some err) \<Rightarrow> (evs, Returns (None, Some err))
                   | (evs, None) \<Rightarrow>
                       (case httpclient c of
                          None \<Rightarrow> (evs, Panics nil_dereference)
                        | Some t \<Rightarrow>
                            (case httpclient_Do w t req of
                               Inl err2 \<Rightarrow> (evs @ [EvDo req], Returns (None, Some err2))
                             | Inr resp \<Rightarrow>
                                 (evs @ [EvDo req],
                                  if flag = False
                                  then map_outcome (Pair (Some resp)) (checkForErrors w resp)
                                  else map_outcome (Pair (Some resp))
                                         (checkForErrorsChecks resp)))))))"

subsection \<open>Endpoint classification\<close>

text \<open>The test that every operation makes on its endpoint, and the URL it then builds.\<close>

definition is_secondary :: "string \<Rightarrow> bool" where
  "is_secondary endpoint =
     (let urlArr = Split endpoint CHR ''/''
      in length urlArr > 2 \<and> urlArr ! 2 = SonarHost)"

definition resolved_url :: "string \<Rightarrow> string" where
  "resolved_url endpoint = (if is_secondary endpoint then endpoint else BaseURL @ endpoint)"

text \<open>
  The specification speaks of the endpoint's host component instead. It is read here as
  the host of a URL: after an optional scheme (a letter, then letters, digits, \<^verbatim>\<open>+\<close>,
  \<^verbatim>\<open>-\<close> or \<^verbatim>\<open>.\<close>, up to a colon) and two slashes comes the authority, which ends at the
  next slash, question mark or hash or at the end; the host is the authority without
  the user information that ends at its last at sign and without the port that follows
  a colon (for a bracketed address, the closing bracket), in lower case. An endpoint
  without the two slashes has no host component. Then, in the words of the
  specification, the endpoint is used as it is and is secondary when its host component
  is the secondary host, and gets the base URL in front and is primary otherwise.
\<close>

definition upper_letters :: string where
  "upper_letters = ''ABCDEFGHIJKLMNOPQRSTUVWXYZ''"

definition lower_letters :: string where
  "lower_letters = ''abcdefghijklmnopqrstuvwxyz''"

definition is_letter :: "char \<Rightarrow> bool" where
  "is_letter ch = (ch \<in> set (upper_letters @ lower_letters))"

definition is_scheme_char :: "char \<Rightarrow> bool" where
  "is_scheme_char ch = (is_letter ch \<or> ch \<in> set ''0123456789+-.'')"

definition lower_case :: "char \<Rightarrow> char" where
  "lower_case ch =
     (case map_of (zip upper_letters lower_letters) ch of None \<Rightarrow> ch | Some l \<Rightarrow> l)"

definition spec_after_scheme :: "string \<Rightarrow> string" where
  "spec_after_scheme endpoint =
     (let pre = takeWhile (\<lambda>ch. ch \<noteq> CHR '':'') endpoint
      in if length pre < length endpoint \<and> list_all is_scheme_char pre \<and>
            (case pre of [] \<Rightarrow> False | ch # _ \<Rightarrow> is_letter ch)
         then drop (Suc (length pre)) endpoint
         else endpoint)"

definition spec_authority :: "string \<Rightarrow> string option" where
  "spec_authority endpoint =
     (let rest = spec_after_scheme endpoint
      in if take 2 rest = ''//''
         then Some (takeWhile (\<lambda>ch. ch \<noteq> CHR ''/'' \<and> ch \<noteq> CHR ''?'' \<and> ch \<noteq> CHR ''#'')
                      (drop 2 rest))
         else None)"

definition spec_host_of_authority :: "string \<Rightarrow> string" where
  "spec_host_of_authority authority =
     (let hostport = rev (takeWhile (\<lambda>ch. ch \<noteq> CHR ''@'') (rev authority));
          host = (case hostport of
                    [] \<Rightarrow> []
                  | ch # _ \<Rightarrow>
                      if ch = CHR ''[''
                      then takeWhile (\<lambda>ch. ch \<noteq> CHR '']'') hostport @ '']''
                      else takeWhile (\<lambda>ch. ch \<noteq> CHR '':'') hostport)
      in map lower_case host)"

definition spec_host_component :: "string \<Rightarrow> string option" where
  "spec_host_component endpoint = map_option spec_host_of_authority (spec_authority endpoint)"

definition spec_resolve :: "string \<Rightarrow> string \<times> bool" where
  "spec_resolve endpoint =
     (if spec_host_component endpoint = Some SonarHost
      then (endpoint, True)
      else (BaseURL @ endpoint, False))"

subsection \<open>A sample world and client\<close>

text \<open>
  A world to run the client in: a fixed clock, stand-ins for the MAC and its encoding, a
  JSON decoder that knows the one document sent below, a limiter that admits at once, a
  server that answers every request with status 400 and that document, and a platform
  that converts an out-of-range \<^verbatim>\<open>float32\<close> to the least \<^verbatim>\<open>int64\<close>. The objects sent are
  their own JSON text.
\<close>

definition errors_body :: string where
  \<open>errors_body = ''{"errors":["bad","thing"]}''\<close>

definition sample_world :: "string world" where
  "sample_world =
     \<lparr>UnixNano = 1600000000123456789,
      hmac_sha1 = (\<lambda>key msg. ''mac''),
      base64_std = (\<lambda>bytes. ''bWFj''),
      NewRequest_err = (\<lambda>method url. None),
      url_Parse_err = (\<lambda>url. None),
      json_Marshal = (\<lambda>obj. Inr obj),
      json_Unmarshal =
        (\<lambda>body. if body = errors_body
                then Map.empty(''errors'' \<mapsto> JArray [JString ''bad'', JString ''thing''])
                else Map.empty),
      limiter_Wait = (\<lambda>rl. None),
      httpclient_Do = (\<lambda>t req. Inr \<lparr>StatusCode = 400, Body = Inr errors_body\<rparr>),
      out_of_range_int64 = (\<lambda>x. - (2 ^ 63))\<rparr>"

text \<open>The same world with a transport that refuses every request.\<close>

definition offline_world :: "string world" where
  "offline_world =
     sample_world\<lparr>httpclient_Do := (\<lambda>t req. Inl ''unsupported protocol scheme'')\<rparr>"

text \<open>The client that \<open>initClient\<close> builds from two keys and no option.\<close>

definition sample_client :: Client where
  "sample_client =
     \<lparr>httpclient = Some (useInsecureHTTPClient False), rateLimiter = None,
      apiKey = ''key'', secretKey = ''secret'', insecure = False, proxyUrl = []\<rparr>"

text \<open>The same client with the option \<^verbatim>\<open>RequestInterval(0.5)\<close>.\<close>

definition paced_client :: Client where
  "paced_client = RequestInterval sample_world (Finite (1 / 2)) sample_client"

text \<open>The request that \<open>makeRequest\<close> builds for these clients in the sample world, and
  the answer of the sample server.\<close>

definition sample_request :: "string \<Rightarrow> string \<Rightarrow> string option \<Rightarrow> Request" where
  "sample_request method url body =
     \<lparr>Method = method, URL = url, ReqBody = body,
      Header = [''Content-Type'' \<mapsto> ''application/json'',
                ''x-cns-security-token'' \<mapsto> ''key:bWFj:1600000000123'']\<rparr>"

definition sample_response :: Response where
  "sample_response = \<lparr>StatusCode = 400, Body = Inr errors_body\<rparr>"

subsection \<open>Notions used in the statements\<close>

text \<open>A request carries the two headers that \<open>makeRequest\<close> sets: the content type and
  the token generated for the client's keys at the time of the call.\<close>

definition carries_headers :: "'obj world \<Rightarrow> Client \<Rightarrow> Request \<Rightarrow> bool" where
  "carries_headers w c req =
     (Header req ''Content-Type'' = Some ''application/json'' \<and>
      Header req ''x-cns-security-token'' = Some (getToken w (apiKey c) (secretKey c)))"

text \<open>The value of a decimal numeral, to check \<open>format_nat\<close> against.\<close>

definition decimal_value :: "string \<Rightarrow> nat" where
  "decimal_value s = foldl (\<lambda>a ch. 10 * a + (of_char ch - 48)) 0 s"

section \<open>Properties\<close>

subsection \<open>Splitting at a separator\<close>

lemma Split_nonempty: "Split s sep \<noteq> []"
  by (induction s) (auto split: list.splits)

lemma Split_no_sep: "sep \<notin> set a \<Longrightarrow> Split a sep = [a]"
  by (induction a) auto

lemma Split_append: "sep \<notin> set a \<Longrightarrow> Split (a @ sep # rest) sep = a # Split rest sep"
  by (induction a) auto

lemma Split_first: "\<exists>ps. Split s sep = takeWhile (\<lambda>ch. ch \<noteq> sep) s # ps"
  by (induction s) (auto split: list.splits)

lemma length_Split: "length (Split s sep) = Suc (count_list s sep)"
  by (induction s) (auto split: list.splits simp: Split_nonempty)

text \<open>The first piece has no separator; it is the whole string, or a separator and the
  string of the other pieces follow it.\<close>

lemma Split_cases:
  "Split s sep = p # ps \<Longrightarrow>
     sep \<notin> set p \<and>
     (if ps = [] then s = p else (\<exists>rest. s = p @ sep # rest \<and> Split rest sep = ps))"
proof (induction s arbitrary: p ps)
  case Nil
  then show ?case by simp
next
  case (Cons c cs)
  show ?case
  proof (cases "c = sep")
    case True
    with Cons.prems have "p = []" "ps = Split cs sep" by auto
    with True show ?thesis by (simp add: Split_nonempty)
  next
    case False
    obtain q qs where q: "Split cs sep = q # qs"
      using Split_nonempty [of cs sep] by (cases "Split cs sep") auto
    with False Cons.prems have p: "p = c # q" "ps = qs" by auto
    from Cons.IH [OF q] False p show ?thesis by auto
  qed
qed

lemma three_pieces: "2 < length xs \<Longrightarrow> \<exists>a b h ps. xs = a # b # h # ps"
proof -
  assume len: "2 < length xs"
  then obtain a ys where xs: "xs = a # ys" by (cases xs) auto
  with len obtain b zs where ys: "ys = b # zs" by (cases ys) auto
  with len xs obtain h ps where "zs = h # ps" by (cases zs) auto
  with xs ys show ?thesis by simp
qed

subsection \<open>Decimal numerals\<close>

lemma digit_all: "\<forall>d\<in>{0..<10}. (of_char (digit d) :: nat) = 48 + d"
  by code_simp

lemma digit_code: "d < 10 \<Longrightarrow> (of_char (digit d) :: nat) = 48 + d"
  using digit_all by simp

lemma digit_is_digit: "d < 10 \<Longrightarrow> digit d \<in> set ''0123456789''"
  unfolding digit_def by (rule nth_mem) simp

lemma decimal_value_format_nat: "decimal_value (format_nat n) = n"
proof (induction n rule: format_nat.induct)
  case (1 n)
  show ?case
  proof (cases "n < 10")
    case True
    then show ?thesis
      by (subst format_nat.simps) (simp add: decimal_value_def digit_code)
  next
    case False
    with 1 have "decimal_value (format_nat (n div 10)) = n div 10" by simp
    with False show ?thesis
      by (subst format_nat.simps) (simp add: decimal_value_def digit_code)
  qed
qed

lemma format_nat_inj: "format_nat m = format_nat n \<Longrightarrow> m = n"
  by (metis decimal_value_format_nat)

lemma set_format_nat: "set (format_nat n) \<subseteq> set ''0123456789''"
proof (induction n rule: format_nat.induct)
  case (1 n)
  show ?case
  proof (cases "n < 10")
    case True
    then show ?thesis
      using digit_is_digit [of n] by (subst format_nat.simps) simp
  next
    case False
    with 1 have "set (format_nat (n div 10)) \<subseteq> set ''0123456789''" by simp
    with False show ?thesis
      using digit_is_digit [of "n mod 10"] by (subst format_nat.simps) simp
  qed
qed

lemma FormatInt_inj: "FormatInt i = FormatInt j \<Longrightarrow> i = j"
proof -
  assume eq: "FormatInt i = FormatInt j"
  have minus: "CHR ''-'' \<notin> set (format_nat n)" for n
    using set_format_nat [of n] by auto
  have neg: "(CHR ''-'' \<in> set (FormatInt k)) = (k < 0)" for k
    using minus by (simp add: FormatInt_def)
  from eq neg [of i] neg [of j] have same: "(i < 0) = (j < 0)" by simp
  show ?thesis
  proof (cases "i < 0")
    case True
    with same eq have "format_nat (nat (- i)) = format_nat (nat (- j))"
      by (simp add: FormatInt_def)
    then have "nat (- i) = nat (- j)" by (rule format_nat_inj)
    with True same show ?thesis by simp
  next
    case False
    with same eq have "format_nat (nat i) = format_nat (nat j)"
      by (simp add: FormatInt_def)
    then have "nat i = nat j" by (rule format_nat_inj)
    with False same show ?thesis by simp
  qed
qed

lemma FormatInt_no_colon: "CHR '':'' \<notin> set (FormatInt i)"
  using set_format_nat [of "nat i"] set_format_nat [of "nat (- i)"]
  by (auto simp: FormatInt_def)

text \<open>Two strings that agree, each ending in a field that follows its last separator,
  agree on that field.\<close>

lemma last_field:
  assumes "c \<notin> set t" "c \<notin> set t'" "x @ c # t = x' @ c # t'"
  shows "t = t'"
proof -
  have "takeWhile (\<lambda>a. a \<noteq> c) (rev (x @ c # t)) = rev t"
    using assms(1) by (auto simp: takeWhile_tail)
  moreover have "takeWhile (\<lambda>a. a \<noteq> c) (rev (x' @ c # t')) = rev t'"
    using assms(2) by (auto simp: takeWhile_tail)
  ultimately have "rev t = rev t'" using assms(3) by simp
  then show ?thesis by simp
qed

subsection \<open>Evaluating the arithmetic of float32\<close>

lemma bitlen_0: "bitlen 0 = 0"
  by (simp add: bitlen.simps)

lemma bitlen_1: "bitlen 1 = 1" "bitlen (Suc 0) = 1"
  by (simp_all add: bitlen.simps)

lemma bitlen_One: "bitlen (numeral Num.One) = 1"
  by (simp add: bitlen.simps)

lemma bitlen_Bit0: "bitlen (numeral (Num.Bit0 k)) = Suc (bitlen (numeral k))"
  by (subst bitlen.simps) simp

lemma bitlen_Bit1: "bitlen (numeral (Num.Bit1 k)) = Suc (bitlen (numeral k))"
  by (subst bitlen.simps) simp

lemmas bitlen_numeral = bitlen_0 bitlen_1 bitlen_One bitlen_Bit0 bitlen_Bit1

lemma floor_rat_numeral: "\<lfloor>numeral a / numeral b :: rat\<rfloor> = numeral a div numeral b"
  by (metis floor_divide_of_int_eq of_int_numeral)

lemma floor_rat_one: "\<lfloor>1 / numeral b :: rat\<rfloor> = 1 div numeral b"
  using floor_divide_of_int_eq [of 1 "numeral b", where ?'a = rat] by simp

lemma ceiling_rat_numeral: "\<lceil>numeral a / numeral b :: rat\<rceil> = - (- numeral a div numeral b)"
  using floor_divide_of_int_eq [of "- numeral a" "numeral b", where ?'a = rat]
  by (simp add: ceiling_def)

lemma ceiling_rat_one: "\<lceil>1 / numeral b :: rat\<rceil> = - (- 1 div numeral b)"
  using floor_divide_of_int_eq [of "- 1" "numeral b", where ?'a = rat]
  by (simp add: ceiling_def)

lemmas f32_eval = mul32_def round32_def ilog2_def pow2_def round_half_even_def Let_def
  bitlen_numeral floor_rat_numeral floor_rat_one ceiling_rat_numeral ceiling_rat_one

text \<open>Products with 1000: exact at 0.5; rounded up to 34 at the \<^verbatim>\<open>float32\<close> just below
  0.034; too large for an \<^verbatim>\<open>int64\<close> at the \<^verbatim>\<open>float32\<close> nearest to \<open>10 ^ 16\<close>; infinite
  at \<open>2 ^ 127\<close>.\<close>

lemma mul32_half: "mul32 (Finite (1 / 2)) (Finite 1000) = Finite 500"
  by (simp add: f32_eval)

lemma mul32_rounds: "mul32 (Finite (9126805 / 268435456)) (Finite 1000) = Finite 34"
  by (simp add: f32_eval)

lemma mul32_large:
  "mul32 (Finite 10000000272564224) (Finite 1000) = Finite 9999999980506447872 \<and>
   Duration w (Finite 9999999980506447872) = out_of_range_int64 w (Finite 9999999980506447872)"
  by (simp add: f32_eval Duration_def)

lemma mul32_overflow: "mul32 (Finite (2 ^ 127)) (Finite 1000) = Infinity False"
  by (simp add: f32_eval)

subsection \<open>The limiter that the interval option installs\<close>

text \<open>No limiter for an interval that is negative or not a number; otherwise a limiter of
  capacity 1 whose interval is the whole number of nanoseconds in the \<^verbatim>\<open>float32\<close> product
  of the option's value and 1000, without limit when that number is 0 or less.\<close>

lemma RequestInterval_limiter:
  "RequestInterval w p c =
     (if ge32 p (Finite 0)
      then c\<lparr>rateLimiter :=
             Some \<lparr>limit = Every (Duration w (mul32 p (Finite 1000))), burst = 1\<rparr>\<rparr>
      else c)"
  by (simp add: RequestInterval_def NewLimiter_def)

lemma RequestInterval_zero:
  "rateLimiter (RequestInterval w (Finite 0) c) = Some \<lparr>limit = Inf_limit, burst = 1\<rparr>"
  by (simp add: RequestInterval_limiter Every_def ge32_def mul32_def round32_def Duration_def)

lemma RequestInterval_negative:
  "p < 0 \<Longrightarrow> RequestInterval w (Finite p) c = c"
  "RequestInterval w NaN c = c"
  by (simp_all add: RequestInterval_limiter ge32_def)

lemma RequestInterval_rounds:
  "rateLimiter (RequestInterval w (Finite (9126805 / 268435456)) c)
     = Some \<lparr>limit = EveryNs 34, burst = 1\<rparr>"
  by (simp add: RequestInterval_limiter ge32_def mul32_rounds Duration_def Every_def)

lemma paced_client_eq:
  "paced_client = sample_client\<lparr>rateLimiter := Some \<lparr>limit = EveryNs 500, burst = 1\<rparr>\<rparr>"
  by (simp add: paced_client_def RequestInterval_limiter ge32_def mul32_half Duration_def
        Every_def)

subsection \<open>The operations, by classification\<close>

lemma secondary_test:
  "(length (Split e CHR ''/'') > 2 \<and> Split e CHR ''/'' ! 2 = SonarHost) = is_secondary e"
  by (simp add: is_secondary_def Let_def)

lemma Save_unfold:
  "Save w c obj e =
     (case json_Marshal w obj of
        Inl err \<Rightarrow> ([], Fatal err)
      | Inr p \<Rightarrow>
          (case makeRequest w c ''POST'' (resolved_url e) p of
             Inl err1 \<Rightarrow> ([], Returns (None, Some err1))
           | Inr req \<Rightarrow>
               (case rateLimiter c of
                  None \<Rightarrow> ([], Panics nil_dereference)
                | Some rl \<Rightarrow>
                    (case limiter_Wait w rl of
                       Some err \<Rightarrow> ([EvWait rl], Returns (None, Some err))
                     | None \<Rightarrow>
                         (case httpclient c of
                            None \<Rightarrow> ([EvWait rl], Panics nil_dereference)
                          | Some t \<Rightarrow>
                              (case httpclient_Do w t req of
                                 Inl err2 \<Rightarrow> ([EvWait rl, EvDo req], Returns (None, Some err2))
                               | Inr resp \<Rightarrow>
                                   ([EvWait rl, EvDo req],
                                    map_outcome (Pair (Some resp))
                                      (if is_secondary e then checkForErrorsChecks resp
                                       else checkForErrors w resp))))))))"
  by (cases "is_secondary e")
    (simp_all add: Save_def Let_def secondary_test resolved_url_def
       split: sum.split option.split prod.split)

lemma GetbyId_unfold:
  "GetbyId w c e =
     (case makeRequest w c ''GET'' (resolved_url e) [] of
        Inl err \<Rightarrow> ([], Returns (None, Some err))
      | Inr req \<Rightarrow>
          (case guarded_Wait w c of
             (evs, Some err) \<Rightarrow> (evs, Returns (None, Some err))
           | (evs, None) \<Rightarrow>
               (case httpclient c of
                  None \<Rightarrow> (evs, Panics nil_dereference)
                | Some t \<Rightarrow>
                    (case httpclient_Do w t req of
                       Inl err1 \<Rightarrow> (evs @ [EvDo req], Returns (None, Some err1))
                     | Inr resp \<Rightarrow>
                         (evs @ [EvDo req],
                          map_outcome (Pair (Some resp))
                            (if is_secondary e then checkForErrorsChecks resp
                             else checkForErrors w resp))))))"
  by (cases "is_secondary e")
    (auto simp: GetbyId_def Let_def secondary_test resolved_url_def
       split: sum.split option.split prod.split)

lemma UpdatebyID_unfold:
  "UpdatebyID w c obj e =
     (case json_Marshal w obj of
        Inl err \<Rightarrow> ([], Fatal err)
      | Inr p \<Rightarrow>
          (case makeRequest w c ''PUT'' (resolved_url e) p of
             Inl err1 \<Rightarrow> ([], Returns (None, Some err1))
           | Inr req \<Rightarrow>
               (case guarded_Wait w c of
                  (evs, Some err) \<Rightarrow> (evs, Returns (None, Some err))
                | (evs, None) \<Rightarrow>
                    (case httpclient c of
                       None \<Rightarrow> (evs, Panics nil_dereference)
                     | Some t \<Rightarrow>
                         (case httpclient_Do w t req of
                            Inl err2 \<Rightarrow> (evs @ [EvDo req], Returns (None, Some err2))
                          | Inr resp \<Rightarrow>
                              (evs @ [EvDo req],
                               map_outcome (Pair (Some resp))
                                 (if is_secondary e then checkForErrorsChecks resp
                                  else checkForErrors w resp)))))))"
  by (cases "is_secondary e")
    (auto simp: UpdatebyID_def Let_def secondary_test resolved_url_def
       split: sum.split option.split prod.split)

lemma DeletebyId_unfold:
  "DeletebyId w c e =
     (case makeRequest w c ''DELETE'' (resolved_url e) [] of
        Inl err \<Rightarrow> ([], Returns (Some err))
      | Inr req \<Rightarrow>
          (case guarded_Wait w c of
             (evs, Some err) \<Rightarrow> (evs, Returns (Some err))
           | (evs, None) \<Rightarrow>
               (case httpclient c of
                  None \<Rightarrow> (evs, Panics nil_dereference)
                | Some t \<Rightarrow>
                    (case httpclient_Do w t req of
                       Inl err1 \<Rightarrow> (evs @ [EvDo req], Returns (Some err1))
                     | Inr resp \<Rightarrow> (evs @ [EvDo req], checkForErrorsChecks resp)))))"
  by (cases "is_secondary e")
    (auto simp: DeletebyId_def Let_def secondary_test resolved_url_def
       split: sum.split option.split prod.split)

lemma makeRequest_ok:
  "NewRequest_err w method url = None \<Longrightarrow>
   makeRequest w c method url payload =
     Inr \<lparr>Method = (if method = [] then ''GET'' else method), URL = url,
          ReqBody = (if method = ''POST'' \<or> method = ''PUT'' then Some payload else None),
          Header = [''Content-Type'' \<mapsto> ''application/json'',
                    ''x-cns-security-token'' \<mapsto> getToken w (apiKey c) (secretKey c)]\<rparr>"
  by (simp add: makeRequest_def Let_def)

lemma initClient_no_option:
  "initClient w ''key'' ''secret'' [] = Returns sample_client"
  by (simp add: initClient_def sample_client_def)

subsection \<open>The loop of the primary normalizer\<close>

lemma concat_errors_strings:
  "concat_errors acc (map JString msgs) = Returns (acc @ concat msgs)"
  by (induction msgs arbitrary: acc) simp_all

lemma concat_errors_Returns:
  "concat_errors acc vals = Returns r \<Longrightarrow> \<exists>msgs. vals = map JString msgs"
proof (induction vals arbitrary: acc)
  case Nil
  then show ?case by simp
next
  case (Cons v vs)
  from Cons.prems obtain s where v: "v = JString s"
    by (cases v) simp_all
  with Cons.prems have "concat_errors (acc @ s) vs = Returns r" by simp
  from Cons.IH [OF this] obtain msgs where "vs = map JString msgs" ..
  with v have "v # vs = map JString (s # msgs)" by simp
  then show ?case ..
qed

lemma concat_errors_not_Fatal: "concat_errors acc vals \<noteq> Fatal m"
  by (induction vals arbitrary: acc) (auto split: json.splits)

subsection \<open>The third piece of the endpoint\<close>

lemma SonarHost_no_slash: "CHR ''/'' \<notin> set SonarHost"
  by (simp add: SonarHost_def)

lemma is_secondary_shape:
  "is_secondary e \<longleftrightarrow>
     (\<exists>a b rest. CHR ''/'' \<notin> set a \<and> CHR ''/'' \<notin> set b \<and>
        (rest = [] \<or> (\<exists>r. rest = CHR ''/'' # r)) \<and>
        e = a @ ''/'' @ b @ ''/'' @ SonarHost @ rest)"
proof
  assume "is_secondary e"
  then have len: "length (Split e CHR ''/'') > 2" and third: "Split e CHR ''/'' ! 2 = SonarHost"
    by (simp_all add: is_secondary_def Let_def)
  from three_pieces [OF len] obtain a b h ps where sp: "Split e CHR ''/'' = a # b # h # ps"
    by blast
  with third have h: "h = SonarHost" by simp
  from Split_cases [OF sp] obtain r1 where a: "CHR ''/'' \<notin> set a"
    and e: "e = a @ CHR ''/'' # r1" and s1: "Split r1 CHR ''/'' = b # h # ps" by auto
  from Split_cases [OF s1] obtain r2 where b: "CHR ''/'' \<notin> set b"
    and r1: "r1 = b @ CHR ''/'' # r2" and s2: "Split r2 CHR ''/'' = h # ps" by auto
  from Split_cases [OF s2] have "r2 = h \<or> (\<exists>r. r2 = h @ CHR ''/'' # r)"
    by (auto split: if_splits)
  then obtain rest where r2: "r2 = h @ rest" and rest: "rest = [] \<or> (\<exists>r. rest = CHR ''/'' # r)"
    by auto
  from e r1 r2 h have "e = a @ ''/'' @ b @ ''/'' @ SonarHost @ rest" by simp
  with a b rest show "\<exists>a b rest. CHR ''/'' \<notin> set a \<and> CHR ''/'' \<notin> set b \<and>
        (rest = [] \<or> (\<exists>r. rest = CHR ''/'' # r)) \<and>
        e = a @ ''/'' @ b @ ''/'' @ SonarHost @ rest" by blast
next
  assume "\<exists>a b rest. CHR ''/'' \<notin> set a \<and> CHR ''/'' \<notin> set b \<and>
        (rest = [] \<or> (\<exists>r. rest = CHR ''/'' # r)) \<and>
        e = a @ ''/'' @ b @ ''/'' @ SonarHost @ rest"
  then obtain a b rest where a: "CHR ''/'' \<notin> set a" and b: "CHR ''/'' \<notin> set b"
    and rest: "rest = [] \<or> (\<exists>r. rest = CHR ''/'' # r)"
    and e: "e = a @ CHR ''/'' # b @ CHR ''/'' # SonarHost @ rest" by auto
  have "\<exists>ps. Split (SonarHost @ rest) CHR ''/'' = SonarHost # ps"
    using rest Split_no_sep [OF SonarHost_no_slash] Split_append [OF SonarHost_no_slash]
    by auto
  then obtain ps where "Split (SonarHost @ rest) CHR ''/'' = SonarHost # ps" ..
  with e have "Split e CHR ''/'' = a # b # SonarHost # ps"
    by (simp add: Split_append [OF a] Split_append [OF b])
  then show "is_secondary e" by (simp add: is_secondary_def)
qed

lemma few_slashes_primary: "count_list e CHR ''/'' < 2 \<Longrightarrow> \<not> is_secondary e"
  by (simp add: is_secondary_def length_Split)

subsection \<open>The requests that are sent\<close>

lemma guarded_Wait_events: "guarded_Wait w c = (evs, r) \<Longrightarrow> EvDo req \<notin> set evs"
  by (auto simp: guarded_Wait_def split: option.splits)

lemma Save_sent:
  "EvDo req \<in> set (fst (Save w c obj e)) \<Longrightarrow>
     \<exists>p. json_Marshal w obj = Inr p \<and> makeRequest w c ''POST'' (resolved_url e) p = Inr req"
  by (auto simp: Save_unfold split: sum.splits option.splits)

lemma GetbyId_sent:
  "EvDo req \<in> set (fst (GetbyId w c e)) \<Longrightarrow>
     makeRequest w c ''GET'' (resolved_url e) [] = Inr req"
  by (auto simp: GetbyId_unfold dest: guarded_Wait_events split: sum.splits option.splits prod.splits)

lemma UpdatebyID_sent:
  "EvDo req \<in> set (fst (UpdatebyID w c obj e)) \<Longrightarrow>
     \<exists>p. json_Marshal w obj = Inr p \<and> makeRequest w c ''PUT'' (resolved_url e) p = Inr req"
  by (auto simp: UpdatebyID_unfold dest: guarded_Wait_events split: sum.splits option.splits prod.splits)

lemma DeletebyId_sent:
  "EvDo req \<in> set (fst (DeletebyId w c e)) \<Longrightarrow>
     makeRequest w c ''DELETE'' (resolved_url e) [] = Inr req"
  by (auto simp: DeletebyId_unfold dest: guarded_Wait_events split: sum.splits option.splits prod.splits)

lemma makeRequest_Inr:
  "makeRequest w c method url payload = Inr req \<Longrightarrow>
     Method req = (if method = [] then ''GET'' else method) \<and> URL req = url \<and>
     ReqBody req = (if method = ''POST'' \<or> method = ''PUT'' then Some payload else None) \<and>
     Header req ''Content-Type'' = Some ''application/json'' \<and>
     Header req ''x-cns-security-token'' = Some (getToken w (apiKey c) (secretKey c))"
  by (auto simp: makeRequest_def Let_def split: option.splits)

subsection \<open>The normalizer that an operation applies\<close>

lemma Returns_response:
  "map_outcome (Pair (Some resp)) oc = Returns (Some resp', err) \<Longrightarrow>
     resp' = resp \<and> oc = Returns err"
  by (cases oc) auto

lemma Save_policy:
  "snd (Save w c obj e) = Returns (Some resp, err) \<Longrightarrow>
     (if is_secondary e then checkForErrorsChecks resp else checkForErrors w resp) = Returns err"
  by (auto simp: Save_unfold dest!: Returns_response
        split: sum.splits option.splits prod.splits if_splits)

lemma GetbyId_policy:
  "snd (GetbyId w c e) = Returns (Some resp, err) \<Longrightarrow>
     (if is_secondary e then checkForErrorsChecks resp else checkForErrors w resp) = Returns err"
  by (auto simp: GetbyId_unfold dest!: Returns_response
        split: sum.splits option.splits prod.splits if_splits)

lemma UpdatebyID_policy:
  "snd (UpdatebyID w c obj e) = Returns (Some resp, err) \<Longrightarrow>
     (if is_secondary e then checkForErrorsChecks resp else checkForErrors w resp) = Returns err"
  by (auto simp: UpdatebyID_unfold dest!: Returns_response
        split: sum.splits option.splits prod.splits if_splits)

subsection \<open>Runs in the sample world\<close>

lemma sample_token: "getToken sample_world ''key'' ''secret'' = ''key:bWFj:1600000000123''"
  by (simp add: sample_world_def getToken_def FormatInt_def Millisecond_def
        signed_divide_int_def format_nat.simps digit_def)

lemma sample_makeRequest:
  assumes "method \<noteq> []"
  shows "makeRequest sample_world sample_client method url payload =
     Inr (sample_request method url
            (if method = ''POST'' \<or> method = ''PUT'' then Some payload else None))"
proof -
  have "NewRequest_err sample_world method url = None"
    by (simp add: sample_world_def)
  from makeRequest_ok [OF this, of sample_client payload] assms show ?thesis
    by (simp add: sample_request_def sample_token) (simp add: sample_client_def sample_token)
qed

lemma paced_makeRequest:
  "makeRequest sample_world paced_client method url payload =
     makeRequest sample_world sample_client method url payload"
  by (simp add: makeRequest_def paced_client_eq Let_def split: option.split)

lemma sample_fields:
  "httpclient sample_client = Some (useInsecureHTTPClient False)"
  "rateLimiter sample_client = None"
  "json_Marshal sample_world obj = Inr obj"
  "limiter_Wait sample_world rl = None"
  by (simp_all add: sample_client_def sample_world_def)

lemma sample_Do:
  "httpclient_Do sample_world t req = Inr sample_response"
  by (simp add: sample_world_def sample_response_def)

lemma sample_resolved:
  "resolved_url ''v1/domains'' = ''https://api.dns.constellix.com/v1/domains''"
  "resolved_url ''v1/domains/1'' = ''https://api.dns.constellix.com/v1/domains/1''"
  "resolved_url ''https://api.sonar.constellix.com/v1/x'' = ''https://api.sonar.constellix.com/v1/x''"
  "resolved_url ''//api.sonar.constellix.com/v1/x'' = ''//api.sonar.constellix.com/v1/x''"
  "resolved_url ''api.sonar.constellix.com/v1/x''
     = ''https://api.dns.constellix.com/api.sonar.constellix.com/v1/x''"
  "resolved_url ''https://api.sonar.constellix.com:443/v1/x''
     = ''https://api.dns.constellix.com/https://api.sonar.constellix.com:443/v1/x''"
  by (simp_all add: resolved_url_def is_secondary_def SonarHost_def BaseURL_def)

lemma sample_secondary:
  "\<not> is_secondary ''v1/domains''"
  "\<not> is_secondary ''v1/domains/1''"
  "is_secondary ''https://api.sonar.constellix.com/v1/x''"
  "is_secondary ''//api.sonar.constellix.com/v1/x''"
  "\<not> is_secondary ''api.sonar.constellix.com/v1/x''"
  "\<not> is_secondary ''https://api.sonar.constellix.com:443/v1/x''"
  by (simp_all add: is_secondary_def SonarHost_def)

lemma sample_GetbyId:
  "GetbyId sample_world sample_client e =
     ([EvDo (sample_request ''GET'' (resolved_url e) None)],
      map_outcome (Pair (Some sample_response))
        (if is_secondary e then checkForErrorsChecks sample_response
         else checkForErrors sample_world sample_response))"
  by (simp add: GetbyId_unfold sample_makeRequest sample_Do guarded_Wait_def sample_fields)

lemma sample_DeletebyId:
  "DeletebyId sample_world sample_client e =
     ([EvDo (sample_request ''DELETE'' (resolved_url e) None)],
      checkForErrorsChecks sample_response)"
  by (simp add: DeletebyId_unfold sample_makeRequest sample_Do guarded_Wait_def sample_fields)

lemma sample_primary_policy:
  "checkForErrors sample_world sample_response = Returns (Some ''badthing'')"
  by (simp add: checkForErrors_def sample_response_def sample_world_def index_map_def)

lemma sample_secondary_policy:
  "checkForErrorsChecks sample_response = Returns (Some errors_body)"
  by (simp add: checkForErrorsChecks_def sample_response_def)

lemma paced_limiter: "rateLimiter paced_client = Some \<lparr>limit = EveryNs 500, burst = 1\<rparr>"
  by (simp add: paced_client_eq)

lemma paced_httpclient: "httpclient paced_client = Some (useInsecureHTTPClient False)"
  by (simp add: paced_client_eq sample_client_def)

lemma sample_Save:
  "Save sample_world paced_client obj e =
     ([EvWait \<lparr>limit = EveryNs 500, burst = 1\<rparr>,
       EvDo (sample_request ''POST'' (resolved_url e) (Some obj))],
      map_outcome (Pair (Some sample_response))
        (if is_secondary e then checkForErrorsChecks sample_response
         else checkForErrors sample_world sample_response))"
  by (simp add: Save_unfold paced_makeRequest sample_makeRequest sample_Do paced_limiter
        paced_httpclient sample_fields)

lemma sample_UpdatebyID:
  "UpdatebyID sample_world paced_client obj e =
     ([EvWait \<lparr>limit = EveryNs 500, burst = 1\<rparr>,
       EvDo (sample_request ''PUT'' (resolved_url e) (Some obj))],
      map_outcome (Pair (Some sample_response))
        (if is_secondary e then checkForErrorsChecks sample_response
         else checkForErrors sample_world sample_response))"
  by (simp add: UpdatebyID_unfold paced_makeRequest sample_makeRequest sample_Do paced_limiter
        paced_httpclient guarded_Wait_def sample_fields)

lemma paced_GetbyId:
  "GetbyId sample_world paced_client e =
     ([EvWait \<lparr>limit = EveryNs 500, burst = 1\<rparr>,
       EvDo (sample_request ''GET'' (resolved_url e) None)],
      map_outcome (Pair (Some sample_response))
        (if is_secondary e then checkForErrorsChecks sample_response
         else checkForErrors sample_world sample_response))"
  by (simp add: GetbyId_unfold paced_makeRequest sample_makeRequest sample_Do paced_limiter
        paced_httpclient guarded_Wait_def sample_fields)

lemma paced_DeletebyId:
  "DeletebyId sample_world paced_client e =
     ([EvWait \<lparr>limit = EveryNs 500, burst = 1\<rparr>,
       EvDo (sample_request ''DELETE'' (resolved_url e) None)],
      checkForErrorsChecks sample_response)"
  by (simp add: DeletebyId_unfold paced_makeRequest sample_makeRequest sample_Do paced_limiter
        paced_httpclient guarded_Wait_def sample_fields)

subsection \<open>Endpoints of three pieces or more\<close>

lemma three_segments:
  assumes "CHR ''/'' \<notin> set a" "CHR ''/'' \<notin> set b" "CHR ''/'' \<notin> set c"
    and "rest = [] \<or> (\<exists>r. rest = CHR ''/'' # r)"
  shows "\<exists>ps. Split (a @ ''/'' @ b @ ''/'' @ c @ rest) CHR ''/'' = a # b # c # ps"
proof -
  have "\<exists>ps. Split (c @ rest) CHR ''/'' = c # ps"
    using assms(4) Split_no_sep [OF assms(3)] Split_append [OF assms(3)] by auto
  then obtain ps where "Split (c @ rest) CHR ''/'' = c # ps" ..
  then have "Split (a @ CHR ''/'' # b @ CHR ''/'' # c @ rest) CHR ''/'' = a # b # c # ps"
    by (simp add: Split_append [OF assms(1)] Split_append [OF assms(2)])
  then show ?thesis by simp
qed

lemma third_segment:
  assumes "CHR ''/'' \<notin> set a" "CHR ''/'' \<notin> set b" "CHR ''/'' \<notin> set c"
    and "rest = [] \<or> (\<exists>r. rest = CHR ''/'' # r)"
  shows "is_secondary (a @ ''/'' @ b @ ''/'' @ c @ rest) \<longleftrightarrow> c = SonarHost"
proof -
  from three_segments [OF assms] obtain ps
    where "Split (a @ ''/'' @ b @ ''/'' @ c @ rest) CHR ''/'' = a # b # c # ps" ..
  then show ?thesis by (simp add: is_secondary_def)
qed

subsection \<open>Runs in the world without transport\<close>

lemma offline_getToken: "getToken offline_world k s = getToken sample_world k s"
  by (simp add: getToken_def offline_world_def)

lemma offline_makeRequest:
  "makeRequest offline_world c method url payload = makeRequest sample_world c method url payload"
proof -
  have err: "NewRequest_err offline_world method url = NewRequest_err sample_world method url"
    by (simp add: offline_world_def)
  show ?thesis
    unfolding makeRequest_def offline_getToken err by (rule refl)
qed

lemma offline_GetbyId:
  "GetbyId offline_world sample_client e =
     ([EvDo (sample_request ''GET'' (resolved_url e) None)],
      Returns (None, Some ''unsupported protocol scheme''))"
  by (simp add: GetbyId_unfold offline_makeRequest sample_makeRequest guarded_Wait_def
        sample_fields)
     (simp add: offline_world_def)


section \<open>The claims\<close>

subsection \<open>C1: the primary normalizer on a body without a list of error strings\<close>

text \<open>
  Claim C1 says that for a response with a status other than 200 whose body is not JSON,
  or is JSON without an \<^verbatim>\<open>errors\<close> field holding a sequence of strings, the primary
  normalizer returns a generic error and does not crash. The code does the opposite on
  every such response whose body can be read: \<^verbatim>\<open>data["errors"].([]interface{})\<close> and
  \<^verbatim>\<open>val.(string)\<close> are unchecked type assertions, and \<open>checkForErrors\<close> panics.
\<close>

theorem checkForErrors_panics:
  "StatusCode resp \<noteq> 200 \<and> Body resp = Inr body \<and>
   (\<forall>msgs. json_Unmarshal w body ''errors'' \<noteq> Some (JArray (map JString msgs)))
     \<longrightarrow> (\<exists>m. checkForErrors w resp = Panics m)"
proof
  assume a: "StatusCode resp \<noteq> 200 \<and> Body resp = Inr body \<and>
   (\<forall>msgs. json_Unmarshal w body ''errors'' \<noteq> Some (JArray (map JString msgs)))"
  show "\<exists>m. checkForErrors w resp = Panics m"
  proof (cases "index_map (json_Unmarshal w body) ''errors''")
    case (JArray vals)
    with a have nostr: "\<forall>msgs. vals \<noteq> map JString msgs"
      by (auto simp: index_map_def split: option.splits)
    have "\<exists>m. concat_errors [] vals = Panics m"
    proof (cases "concat_errors [] vals")
      case (Returns r)
      with concat_errors_Returns nostr show ?thesis by blast
    next
      case (Panics m)
      then show ?thesis by simp
    next
      case (Fatal m)
      with concat_errors_not_Fatal show ?thesis by blast
    qed
    with a JArray show ?thesis
      by (auto simp: checkForErrors_def)
  qed (use a in \<open>simp_all add: checkForErrors_def\<close>)
qed

text \<open>Status 400 with the body \<^verbatim>\<open>not json\<close>, which the decoder leaves as the nil map;
  the panic reaches the caller of \<open>GetbyId\<close> when the server answers so.\<close>

theorem checkForErrors_panics_witness:
  "json_Unmarshal sample_world ''not json'' ''errors'' = None \<and>
   (\<exists>m. checkForErrors sample_world \<lparr>StatusCode = 400, Body = Inr ''not json''\<rparr> = Panics m) \<and>
   (\<exists>m. snd (GetbyId
              (sample_world\<lparr>httpclient_Do :=
                 \<lambda>t req. Inr \<lparr>StatusCode = 400, Body = Inr ''not json''\<rparr>\<rparr>)
              sample_client ''v1/domains'') = Panics m)"
proof -
  let ?resp = "\<lparr>StatusCode = 400, Body = Inr ''not json''\<rparr>"
  let ?w = "sample_world\<lparr>httpclient_Do := \<lambda>t req. Inr ?resp\<rparr>"
  have nil: "json_Unmarshal sample_world ''not json'' ''errors'' = None"
    by (simp add: sample_world_def errors_body_def)
  from checkForErrors_panics [of ?resp "''not json''" sample_world] nil
  obtain m where m: "checkForErrors sample_world ?resp = Panics m"
    by auto
  have same: "checkForErrors ?w ?resp = checkForErrors sample_world ?resp"
    by (simp add: checkForErrors_def)
  have "NewRequest_err ?w ''GET'' (resolved_url ''v1/domains'') = None"
    by (simp add: sample_world_def)
  then have "snd (GetbyId ?w sample_client ''v1/domains'') = Panics m"
    using m same
    by (simp add: GetbyId_unfold makeRequest_ok guarded_Wait_def sample_fields sample_secondary)
  with nil m show ?thesis by blast
qed

subsection \<open>C2: the request interval\<close>

text \<open>
  Claim C2 says that a minimum request interval of \<open>i > 0\<close> seconds gives a gate of
  capacity 1 with a refill period of \<open>i\<close> seconds. At \<open>i = 0.5\<close> the code builds the gate
  from \<^verbatim>\<open>time.Duration(0.5*1000)\<close>, which is 500 nanoseconds: the limiter has capacity 1
  and one event every 500 ns, not the one event every half second (500000000 ns) of the
  claim. (The claim's other half is about \<open>i \<le> 0\<close>: the code installs no limiter for
  \<open>i < 0\<close> and one without limit for \<open>i = 0\<close>.) The product \<open>0.5 * 1000\<close> is exact in
  \<^verbatim>\<open>float32\<close>, and the result does not depend on the platform.
\<close>

theorem RequestInterval_half_second:
  "rateLimiter (RequestInterval w (Finite (1 / 2)) c) = Some (NewLimiter (EveryNs 500) 1) \<and>
   rateLimiter (RequestInterval w (Finite (1 / 2)) c)
     \<noteq> Some (NewLimiter (Every (Second div 2)) 1)"
  by (simp add: RequestInterval_limiter ge32_def mul32_half Duration_def NewLimiter_def
        Every_def Second_def)

subsection \<open>C3: create without a rate gate\<close>

text \<open>
  Claim C3 says that on a client without a rate gate the create operation skips the gate
  and dispatches. In the code \<open>Save\<close> calls \<^verbatim>\<open>c.rateLimiter.Wait\<close> without the nil check
  of its three siblings: once the object is marshalled and the request is built, \<open>Save\<close>
  panics on the nil limiter and sends nothing, where \<open>GetbyId\<close> on the same client sends
  its request.
\<close>

theorem Save_nil_limiter_panics:
  "(rateLimiter c = None \<and> json_Marshal w obj = Inr payload \<and>
    NewRequest_err w ''POST'' (resolved_url e) = None
      \<longrightarrow> Save w c obj e = ([], Panics nil_dereference)) \<and>
   (rateLimiter c = None \<and> NewRequest_err w ''GET'' (resolved_url e) = None \<and>
    httpclient c = Some t
      \<longrightarrow> (\<exists>req. fst (GetbyId w c e) = [EvDo req]))"
  by (auto simp: Save_unfold GetbyId_unfold makeRequest_ok guarded_Wait_def split: sum.splits)

text \<open>The client built from two keys and no option, creating \<^verbatim>\<open>{}\<close> at
  \<^verbatim>\<open>v1/domains\<close>.\<close>

theorem Save_nil_limiter_panics_witness:
  "initClient sample_world ''key'' ''secret'' [] = Returns sample_client \<and>
   rateLimiter sample_client = None \<and>
   Save sample_world sample_client ''{}'' ''v1/domains'' = ([], Panics nil_dereference) \<and>
   (\<exists>req. fst (GetbyId sample_world sample_client ''v1/domains'') = [EvDo req])"
  using Save_nil_limiter_panics [of sample_client sample_world "''{}''" "''{}''" "''v1/domains''"
          "useInsecureHTTPClient False"]
  by (simp add: initClient_no_option sample_fields) (simp add: sample_world_def)

subsection \<open>C4: the normalizer of delete\<close>

text \<open>
  Claim C4 says that \<open>DeletebyId\<close> normalizes the response by the policy of the
  endpoint's classification, as the other three operations do. The code keeps no
  classification in \<open>DeletebyId\<close>: whenever the server answers, the outcome is that of
  the secondary normalizer \<open>checkForErrorsChecks\<close>, for a primary endpoint too.
\<close>

theorem DeletebyId_always_secondary_policy:
  "makeRequest w c ''DELETE'' (resolved_url e) [] = Inr req \<and> guarded_Wait w c = (evs, None) \<and>
   httpclient c = Some t \<and> httpclient_Do w t req = Inr resp
     \<longrightarrow> DeletebyId w c e = (evs @ [EvDo req], checkForErrorsChecks resp)"
  by (simp add: DeletebyId_unfold)

text \<open>The primary endpoint \<^verbatim>\<open>v1/domains/1\<close>, answered with status 400 and the body
  \<^verbatim>\<open>{"errors":["bad","thing"]}\<close>: delete reports the raw body, where fetch on the same
  endpoint and answer reports \<^verbatim>\<open>badthing\<close>.\<close>

theorem DeletebyId_always_secondary_policy_witness:
  "\<not> is_secondary ''v1/domains/1'' \<and>
   DeletebyId sample_world sample_client ''v1/domains/1''
     = ([EvDo (sample_request ''DELETE'' ''https://api.dns.constellix.com/v1/domains/1'' None)],
        Returns (Some errors_body)) \<and>
   GetbyId sample_world sample_client ''v1/domains/1''
     = ([EvDo (sample_request ''GET'' ''https://api.dns.constellix.com/v1/domains/1'' None)],
        Returns (Some sample_response, Some ''badthing''))"
proof -
  let ?u = "''https://api.dns.constellix.com/v1/domains/1''"
  have "makeRequest sample_world sample_client ''DELETE'' (resolved_url ''v1/domains/1'') []
          = Inr (sample_request ''DELETE'' ?u None)"
    by (simp add: sample_makeRequest sample_resolved)
  moreover have "guarded_Wait sample_world sample_client = ([], None)"
    by (simp add: guarded_Wait_def sample_fields)
  moreover note sample_fields(1) sample_Do [of "useInsecureHTTPClient False" "sample_request ''DELETE'' ?u None"]
  ultimately have "DeletebyId sample_world sample_client ''v1/domains/1''
      = ([] @ [EvDo (sample_request ''DELETE'' ?u None)], checkForErrorsChecks sample_response)"
    using DeletebyId_always_secondary_policy [of sample_world sample_client "''v1/domains/1''"
            "sample_request ''DELETE'' ?u None" "[]" "useInsecureHTTPClient False" sample_response]
    by simp
  then show ?thesis
    by (simp add: sample_secondary sample_secondary_policy sample_GetbyId sample_resolved
          sample_primary_policy)
qed

subsection \<open>C5: resolving the URL\<close>

text \<open>
  Claim C5 says that an endpoint is used as it is and classified secondary if its host
  component is the secondary host, and gets the base URL in front and is primary
  otherwise. The endpoint \<^verbatim>\<open>https://api.sonar.constellix.com:443/v1/x\<close> has the secondary
  host as its host component, so by the claim it is used as it is and is secondary; the
  code finds \<^verbatim>\<open>api.sonar.constellix.com:443\<close> as the third piece, sends the request to
  \<^verbatim>\<open>https://api.dns.constellix.com/https://api.sonar.constellix.com:443/v1/x\<close> and applies
  the primary policy to the answer. The same happens when the host is preceded by user
  information or followed by a query.
\<close>

theorem spec_resolve_counterexample:
  "spec_host_component ''https://api.sonar.constellix.com:443/v1/x'' = Some SonarHost \<and>
   spec_resolve ''https://api.sonar.constellix.com:443/v1/x''
     = (''https://api.sonar.constellix.com:443/v1/x'', True) \<and>
   \<not> is_secondary ''https://api.sonar.constellix.com:443/v1/x'' \<and>
   GetbyId sample_world sample_client ''https://api.sonar.constellix.com:443/v1/x''
     = ([EvDo (sample_request ''GET''
                 ''https://api.dns.constellix.com/https://api.sonar.constellix.com:443/v1/x''
                 None)],
        Returns (Some sample_response, Some ''badthing'')) \<and>
   spec_host_component ''https://user@api.sonar.constellix.com/v1/x'' = Some SonarHost \<and>
   \<not> is_secondary ''https://user@api.sonar.constellix.com/v1/x'' \<and>
   spec_host_component ''https://api.sonar.constellix.com?x=1'' = Some SonarHost \<and>
   \<not> is_secondary ''https://api.sonar.constellix.com?x=1''"
proof (intro conjI)
  show "spec_host_component ''https://user@api.sonar.constellix.com/v1/x'' = Some SonarHost"
    "spec_host_component ''https://api.sonar.constellix.com?x=1'' = Some SonarHost"
    by (simp_all add: spec_host_component_def spec_authority_def spec_after_scheme_def
          spec_host_of_authority_def is_scheme_char_def is_letter_def lower_case_def
          upper_letters_def lower_letters_def Let_def SonarHost_def)
  show "\<not> is_secondary ''https://user@api.sonar.constellix.com/v1/x''"
    "\<not> is_secondary ''https://api.sonar.constellix.com?x=1''"
    by (simp_all add: is_secondary_def SonarHost_def)
  show h: "spec_host_component ''https://api.sonar.constellix.com:443/v1/x'' = Some SonarHost"
    by (simp add: spec_host_component_def spec_authority_def spec_after_scheme_def
          spec_host_of_authority_def is_scheme_char_def is_letter_def lower_case_def
          upper_letters_def lower_letters_def Let_def SonarHost_def)
  show "spec_resolve ''https://api.sonar.constellix.com:443/v1/x''
     = (''https://api.sonar.constellix.com:443/v1/x'', True)"
    by (simp add: spec_resolve_def h)
  show "\<not> is_secondary ''https://api.sonar.constellix.com:443/v1/x''"
    by (rule sample_secondary)
  show "GetbyId sample_world sample_client ''https://api.sonar.constellix.com:443/v1/x''
     = ([EvDo (sample_request ''GET''
                 ''https://api.dns.constellix.com/https://api.sonar.constellix.com:443/v1/x''
                 None)],
        Returns (Some sample_response, Some ''badthing''))"
    by (simp add: sample_GetbyId sample_resolved sample_secondary sample_primary_policy)
qed

text \<open>
  Claim C5 as amended: the test is on the third piece of the endpoint between slashes,
  not on its host component. An endpoint is secondary exactly when it has more than two
  pieces and the third is the secondary host; for an endpoint written as a first piece,
  two slashes, a second piece and then nothing or a slash and more (as
  \<^verbatim>\<open>https://api.sonar.constellix.com/v1/x\<close> is), that is exactly when the piece after the
  two slashes is the secondary host. The URL is the endpoint itself when secondary and
  the base URL followed by the endpoint otherwise; every request that any of the four
  operations sends goes to that URL; and whenever \<open>Save\<close>, \<open>GetbyId\<close> or \<open>UpdatebyID\<close>
  returns a response, the error beside it is the result of the secondary normalizer for
  a secondary endpoint and of the primary one otherwise.
\<close>

theorem resolve_by_third_segment:
  "(is_secondary e \<longleftrightarrow>
      length (Split e CHR ''/'') > 2 \<and> Split e CHR ''/'' ! 2 = SonarHost) \<and>
   (CHR ''/'' \<notin> set s \<and> CHR ''/'' \<notin> set h \<and> (p = [] \<or> (\<exists>r. p = CHR ''/'' # r))
      \<longrightarrow> (is_secondary (s @ ''//'' @ h @ p) \<longleftrightarrow> h = SonarHost)) \<and>
   resolved_url e = (if is_secondary e then e else BaseURL @ e) \<and>
   (EvDo r1 \<in> set (fst (Save w c obj e)) \<longrightarrow> URL r1 = resolved_url e) \<and>
   (EvDo r2 \<in> set (fst (GetbyId w c e)) \<longrightarrow> URL r2 = resolved_url e) \<and>
   (EvDo r3 \<in> set (fst (UpdatebyID w c obj e)) \<longrightarrow> URL r3 = resolved_url e) \<and>
   (EvDo r4 \<in> set (fst (DeletebyId w c e)) \<longrightarrow> URL r4 = resolved_url e) \<and>
   (snd (Save w c obj e) = Returns (Some resp1, err1) \<longrightarrow>
      (if is_secondary e then checkForErrorsChecks resp1 else checkForErrors w resp1)
        = Returns err1) \<and>
   (snd (GetbyId w c e) = Returns (Some resp2, err2) \<longrightarrow>
      (if is_secondary e then checkForErrorsChecks resp2 else checkForErrors w resp2)
        = Returns err2) \<and>
   (snd (UpdatebyID w c obj e) = Returns (Some resp3, err3) \<longrightarrow>
      (if is_secondary e then checkForErrorsChecks resp3 else checkForErrors w resp3)
        = Returns err3)"
proof (intro conjI impI)
  show "is_secondary e \<longleftrightarrow> length (Split e CHR ''/'') > 2 \<and> Split e CHR ''/'' ! 2 = SonarHost"
    by (simp add: secondary_test)
  show "resolved_url e = (if is_secondary e then e else BaseURL @ e)"
    by (simp add: resolved_url_def)
next
  assume "CHR ''/'' \<notin> set s \<and> CHR ''/'' \<notin> set h \<and> (p = [] \<or> (\<exists>r. p = CHR ''/'' # r))"
  then have "is_secondary (s @ ''/'' @ [] @ ''/'' @ h @ p) \<longleftrightarrow> h = SonarHost"
    by (intro third_segment) simp_all
  then show "is_secondary (s @ ''//'' @ h @ p) \<longleftrightarrow> h = SonarHost" by simp
next
  assume "EvDo r1 \<in> set (fst (Save w c obj e))"
  from Save_sent [OF this] show "URL r1 = resolved_url e"
    by (auto dest: makeRequest_Inr)
next
  assume "EvDo r2 \<in> set (fst (GetbyId w c e))"
  from makeRequest_Inr [OF GetbyId_sent [OF this]] show "URL r2 = resolved_url e" by simp
next
  assume "EvDo r3 \<in> set (fst (UpdatebyID w c obj e))"
  from UpdatebyID_sent [OF this] show "URL r3 = resolved_url e"
    by (auto dest: makeRequest_Inr)
next
  assume "EvDo r4 \<in> set (fst (DeletebyId w c e))"
  from makeRequest_Inr [OF DeletebyId_sent [OF this]] show "URL r4 = resolved_url e" by simp
next
  assume "snd (Save w c obj e) = Returns (Some resp1, err1)"
  then show "(if is_secondary e then checkForErrorsChecks resp1 else checkForErrors w resp1)
        = Returns err1" by (rule Save_policy)
next
  assume "snd (GetbyId w c e) = Returns (Some resp2, err2)"
  then show "(if is_secondary e then checkForErrorsChecks resp2 else checkForErrors w resp2)
        = Returns err2" by (rule GetbyId_policy)
next
  assume "snd (UpdatebyID w c obj e) = Returns (Some resp3, err3)"
  then show "(if is_secondary e then checkForErrorsChecks resp3 else checkForErrors w resp3)
        = Returns err3" by (rule UpdatebyID_policy)
qed

text \<open>The two endpoints of the specification, each in all four operations:
  \<^verbatim>\<open>v1/domains\<close> is primary, becomes \<^verbatim>\<open>https://api.dns.constellix.com/v1/domains\<close> and
  its answer is read by the primary policy (\<^verbatim>\<open>badthing\<close>);
  \<^verbatim>\<open>https://api.sonar.constellix.com/v1/x\<close> is secondary, is used as it is and its answer
  is read by the secondary policy (the raw body).\<close>

theorem resolve_by_third_segment_witness:
  "is_secondary (''https:'' @ ''//'' @ ''api.sonar.constellix.com'' @ ''/v1/x'') \<and>
   resolved_url ''v1/domains'' = ''https://api.dns.constellix.com/v1/domains'' \<and>
   Save sample_world paced_client ''{}'' ''v1/domains''
     = ([EvWait \<lparr>limit = EveryNs 500, burst = 1\<rparr>,
         EvDo (sample_request ''POST'' ''https://api.dns.constellix.com/v1/domains'' (Some ''{}''))],
        Returns (Some sample_response, Some ''badthing'')) \<and>
   GetbyId sample_world paced_client ''v1/domains''
     = ([EvWait \<lparr>limit = EveryNs 500, burst = 1\<rparr>,
         EvDo (sample_request ''GET'' ''https://api.dns.constellix.com/v1/domains'' None)],
        Returns (Some sample_response, Some ''badthing'')) \<and>
   UpdatebyID sample_world paced_client ''{}'' ''v1/domains''
     = ([EvWait \<lparr>limit = EveryNs 500, burst = 1\<rparr>,
         EvDo (sample_request ''PUT'' ''https://api.dns.constellix.com/v1/domains'' (Some ''{}''))],
        Returns (Some sample_response, Some ''badthing'')) \<and>
   fst (DeletebyId sample_world paced_client ''v1/domains'')
     = [EvWait \<lparr>limit = EveryNs 500, burst = 1\<rparr>,
        EvDo (sample_request ''DELETE'' ''https://api.dns.constellix.com/v1/domains'' None)] \<and>
   resolved_url ''https://api.sonar.constellix.com/v1/x''
     = ''https://api.sonar.constellix.com/v1/x'' \<and>
   Save sample_world paced_client ''{}'' ''https://api.sonar.constellix.com/v1/x''
     = ([EvWait \<lparr>limit = EveryNs 500, burst = 1\<rparr>,
         EvDo (sample_request ''POST'' ''https://api.sonar.constellix.com/v1/x'' (Some ''{}''))],
        Returns (Some sample_response, Some errors_body)) \<and>
   GetbyId sample_world paced_client ''https://api.sonar.constellix.com/v1/x''
     = ([EvWait \<lparr>limit = EveryNs 500, burst = 1\<rparr>,
         EvDo (sample_request ''GET'' ''https://api.sonar.constellix.com/v1/x'' None)],
        Returns (Some sample_response, Some errors_body)) \<and>
   UpdatebyID sample_world paced_client ''{}'' ''https://api.sonar.constellix.com/v1/x''
     = ([EvWait \<lparr>limit = EveryNs 500, burst = 1\<rparr>,
         EvDo (sample_request ''PUT'' ''https://api.sonar.constellix.com/v1/x'' (Some ''{}''))],
        Returns (Some sample_response, Some errors_body)) \<and>
   fst (DeletebyId sample_world paced_client ''https://api.sonar.constellix.com/v1/x'')
     = [EvWait \<lparr>limit = EveryNs 500, burst = 1\<rparr>,
        EvDo (sample_request ''DELETE'' ''https://api.sonar.constellix.com/v1/x'' None)] \<and>
   checkForErrors sample_world sample_response = Returns (Some ''badthing'') \<and>
   checkForErrorsChecks sample_response = Returns (Some errors_body)"
proof -
  let ?p = "''v1/domains''" and ?pu = "''https://api.dns.constellix.com/v1/domains''"
  let ?q = "''https://api.sonar.constellix.com/v1/x''"
  let ?lim = "EvWait \<lparr>limit = EveryNs 500, burst = 1\<rparr>"
  have runs_p:
    "Save sample_world paced_client ''{}'' ?p
       = ([?lim, EvDo (sample_request ''POST'' ?pu (Some ''{}''))],
          Returns (Some sample_response, Some ''badthing''))"
    "GetbyId sample_world paced_client ?p
       = ([?lim, EvDo (sample_request ''GET'' ?pu None)],
          Returns (Some sample_response, Some ''badthing''))"
    "UpdatebyID sample_world paced_client ''{}'' ?p
       = ([?lim, EvDo (sample_request ''PUT'' ?pu (Some ''{}''))],
          Returns (Some sample_response, Some ''badthing''))"
    "fst (DeletebyId sample_world paced_client ?p)
       = [?lim, EvDo (sample_request ''DELETE'' ?pu None)]"
    by (simp_all add: sample_Save paced_GetbyId sample_UpdatebyID paced_DeletebyId
          sample_resolved sample_secondary sample_primary_policy)
  have runs_q:
    "Save sample_world paced_client ''{}'' ?q
       = ([?lim, EvDo (sample_request ''POST'' ?q (Some ''{}''))],
          Returns (Some sample_response, Some errors_body))"
    "GetbyId sample_world paced_client ?q
       = ([?lim, EvDo (sample_request ''GET'' ?q None)],
          Returns (Some sample_response, Some errors_body))"
    "UpdatebyID sample_world paced_client ''{}'' ?q
       = ([?lim, EvDo (sample_request ''PUT'' ?q (Some ''{}''))],
          Returns (Some sample_response, Some errors_body))"
    "fst (DeletebyId sample_world paced_client ?q)
       = [?lim, EvDo (sample_request ''DELETE'' ?q None)]"
    by (simp_all add: sample_Save paced_GetbyId sample_UpdatebyID paced_DeletebyId
          sample_resolved sample_secondary sample_secondary_policy)
  from resolve_by_third_segment [of ?p "''https:''" "''api.sonar.constellix.com''" "''/v1/x''"
      "sample_request ''POST'' ?pu (Some ''{}'')" sample_world paced_client "''{}''"
      "sample_request ''GET'' ?pu None" "sample_request ''PUT'' ?pu (Some ''{}'')"
      "sample_request ''DELETE'' ?pu None"
      sample_response "Some ''badthing''" sample_response "Some ''badthing''"
      sample_response "Some ''badthing''"] runs_p
  have prim: "is_secondary (''https:'' @ ''//'' @ ''api.sonar.constellix.com'' @ ''/v1/x'')"
    "resolved_url ?p = ?pu"
    "checkForErrors sample_world sample_response = Returns (Some ''badthing'')"
    by (simp_all add: sample_request_def sample_secondary SonarHost_def)
  from resolve_by_third_segment [of ?q "''https:''" "''api.sonar.constellix.com''" "''/v1/x''"
      "sample_request ''POST'' ?q (Some ''{}'')" sample_world paced_client "''{}''"
      "sample_request ''GET'' ?q None" "sample_request ''PUT'' ?q (Some ''{}'')"
      "sample_request ''DELETE'' ?q None"
      sample_response "Some errors_body" sample_response "Some errors_body"
      sample_response "Some errors_body"] runs_q
  have sec: "resolved_url ?q = ?q"
    "checkForErrorsChecks sample_response = Returns (Some errors_body)"
    by (simp_all add: sample_request_def sample_secondary)
  from prim sec runs_p runs_q show ?thesis by simp
qed

subsection \<open>C6: the primary policy\<close>

text \<open>
  Claim C6: under the primary policy a response gives no error exactly when its status is
  200; and when the status is not 200 and the body decodes to a JSON object whose
  \<^verbatim>\<open>errors\<close> field is a sequence of strings, the error message is these strings
  concatenated in order.
\<close>

theorem checkForErrors_policy:
  "(checkForErrors w resp = Returns None \<longleftrightarrow> StatusCode resp = 200) \<and>
   (StatusCode resp \<noteq> 200 \<and> Body resp = Inr body \<and>
    json_Unmarshal w body ''errors'' = Some (JArray (map JString msgs))
      \<longrightarrow> checkForErrors w resp = Returns (Some (concat msgs)))"
proof (intro conjI impI)
  show "checkForErrors w resp = Returns None \<longleftrightarrow> StatusCode resp = 200"
    by (auto simp: checkForErrors_def Let_def split: sum.splits json.splits outcome.splits)
next
  assume "StatusCode resp \<noteq> 200 \<and> Body resp = Inr body \<and>
    json_Unmarshal w body ''errors'' = Some (JArray (map JString msgs))"
  then show "checkForErrors w resp = Returns (Some (concat msgs))"
    by (simp add: checkForErrors_def index_map_def concat_errors_strings)
qed

text \<open>Status 400 with the body \<^verbatim>\<open>{"errors":["bad","thing"]}\<close> gives \<^verbatim>\<open>badthing\<close>;
  status 200 gives no error.\<close>

theorem checkForErrors_policy_witness:
  \<open>checkForErrors sample_world \<lparr>StatusCode = 400, Body = Inr ''{"errors":["bad","thing"]}''\<rparr>
     = Returns (Some ''badthing'') \<and>
   checkForErrors sample_world \<lparr>StatusCode = 200, Body = Inr []\<rparr> = Returns None\<close>
  using checkForErrors_policy [of sample_world
      "\<lparr>StatusCode = 400, Body = Inr errors_body\<rparr>" errors_body "[''bad'', ''thing'']"]
    checkForErrors_policy [of sample_world "\<lparr>StatusCode = 200, Body = Inr []\<rparr>"]
  by (simp add: sample_world_def errors_body_def)

subsection \<open>C7: the secondary policy\<close>

text \<open>
  Claim C7: under the secondary policy a response gives no error exactly when its status
  is 200, 201 or 202; for any other status the error message is the body text as it was
  read, with no parsing.
\<close>

theorem checkForErrorsChecks_policy:
  "(checkForErrorsChecks resp = Returns None \<longleftrightarrow>
      StatusCode resp = 200 \<or> StatusCode resp = 201 \<or> StatusCode resp = 202) \<and>
   (StatusCode resp \<noteq> 200 \<and> StatusCode resp \<noteq> 201 \<and> StatusCode resp \<noteq> 202 \<and>
    Body resp = Inr body
      \<longrightarrow> checkForErrorsChecks resp = Returns (Some body))"
  by (auto simp: checkForErrorsChecks_def split: sum.splits)

text \<open>Status 500 with the body \<^verbatim>\<open>server exploded\<close>; status 201.\<close>

theorem checkForErrorsChecks_policy_witness:
  "checkForErrorsChecks \<lparr>StatusCode = 500, Body = Inr ''server exploded''\<rparr>
     = Returns (Some ''server exploded'') \<and>
   checkForErrorsChecks \<lparr>StatusCode = 201, Body = Inr []\<rparr> = Returns None"
  using checkForErrorsChecks_policy
          [of "\<lparr>StatusCode = 500, Body = Inr ''server exploded''\<rparr>" "''server exploded''"]
        checkForErrorsChecks_policy [of "\<lparr>StatusCode = 201, Body = Inr []\<rparr>"]
  by simp

subsection \<open>C8: the token\<close>

text \<open>
  Claim C8: for every pair of keys the token is the API key, a colon, the base64 text of
  the HMAC-SHA1 of \<open>t\<close> under the secret key, a colon and \<open>t\<close>, where \<open>t\<close> is the epoch
  time in milliseconds (the clock's nanoseconds divided by a million) as a decimal
  numeral; and two tokens generated at different milliseconds differ.
\<close>

theorem getToken_format:
  "getToken w k s =
     k @ '':'' @ base64_std w (hmac_sha1 w s (FormatInt (UnixNano w sdiv Millisecond)))
       @ '':'' @ FormatInt (UnixNano w sdiv Millisecond) \<and>
   (0 \<le> UnixNano w \<longrightarrow>
      decimal_value (FormatInt (UnixNano w sdiv Millisecond)) = nat (UnixNano w div 1000000)) \<and>
   (UnixNano w sdiv Millisecond \<noteq> UnixNano w' sdiv Millisecond \<longrightarrow>
      getToken w k s \<noteq> getToken w' k s)"
proof (intro conjI impI)
  show "getToken w k s =
     k @ '':'' @ base64_std w (hmac_sha1 w s (FormatInt (UnixNano w sdiv Millisecond)))
       @ '':'' @ FormatInt (UnixNano w sdiv Millisecond)"
    by (simp add: getToken_def Let_def)
next
  assume nonneg: "0 \<le> UnixNano w"
  then have "UnixNano w sdiv Millisecond = UnixNano w div 1000000"
    by (simp add: Millisecond_def signed_divide_int_def sgn_if)
  moreover from nonneg have "0 \<le> UnixNano w div 1000000"
    by (simp add: pos_imp_zdiv_nonneg_iff)
  ultimately show "decimal_value (FormatInt (UnixNano w sdiv Millisecond))
      = nat (UnixNano w div 1000000)"
    by (simp add: FormatInt_def decimal_value_format_nat)
next
  assume diff: "UnixNano w sdiv Millisecond \<noteq> UnixNano w' sdiv Millisecond"
  show "getToken w k s \<noteq> getToken w' k s"
  proof
    assume eq: "getToken w k s = getToken w' k s"
    let ?t = "FormatInt (UnixNano w sdiv Millisecond)"
    let ?t' = "FormatInt (UnixNano w' sdiv Millisecond)"
    from eq have "(k @ '':'' @ base64_std w (hmac_sha1 w s ?t)) @ CHR '':'' # ?t
        = (k @ '':'' @ base64_std w' (hmac_sha1 w' s ?t')) @ CHR '':'' # ?t'"
      by (simp add: getToken_def Let_def)
    then have "?t = ?t'"
      by (rule last_field [OF FormatInt_no_colon FormatInt_no_colon])
    then have "UnixNano w sdiv Millisecond = UnixNano w' sdiv Millisecond"
      by (rule FormatInt_inj)
    with diff show False by simp
  qed
qed

text \<open>The sample clock reads 1600000000123456789 ns; a second reading is taken at
  1600000000124000000 ns, the next millisecond.\<close>

theorem getToken_format_witness:
  "getToken sample_world ''key'' ''secret'' = ''key:bWFj:1600000000123'' \<and>
   decimal_value ''1600000000123'' = 1600000000123 \<and>
   getToken sample_world ''key'' ''secret''
     \<noteq> getToken (sample_world\<lparr>UnixNano := 1600000000124000000\<rparr>) ''key'' ''secret''"
  using getToken_format [of sample_world "''key''" "''secret''"
          "sample_world\<lparr>UnixNano := 1600000000124000000\<rparr>"]
  by (simp add: sample_world_def getToken_def decimal_value_def FormatInt_def Millisecond_def
        signed_divide_int_def format_nat.simps digit_def)

subsection \<open>C9: the request\<close>

text \<open>
  Claim C9: a request is built with the method it is asked for (GET when asked for the
  empty method, as \<^verbatim>\<open>http.NewRequest\<close> has it), with the payload as body for POST and
  PUT only and no body otherwise, and with the content type and token headers; and every request that create, fetch, update and delete send has the method
  POST, GET, PUT and DELETE respectively, the marshalled object as body for create and
  update and no body for fetch and delete, and both headers.
\<close>

theorem requests_as_constructed:
  "(makeRequest w c method url payload = Inr req \<longrightarrow>
      Method req = (if method = [] then ''GET'' else method) \<and> URL req = url \<and>
      ReqBody req = (if method = ''POST'' \<or> method = ''PUT'' then Some payload else None) \<and>
      carries_headers w c req) \<and>
   (EvDo r1 \<in> set (fst (Save w c obj e)) \<longrightarrow>
      Method r1 = ''POST'' \<and> (\<exists>p. json_Marshal w obj = Inr p \<and> ReqBody r1 = Some p) \<and>
      carries_headers w c r1) \<and>
   (EvDo r2 \<in> set (fst (GetbyId w c e)) \<longrightarrow>
      Method r2 = ''GET'' \<and> ReqBody r2 = None \<and> carries_headers w c r2) \<and>
   (EvDo r3 \<in> set (fst (UpdatebyID w c obj e)) \<longrightarrow>
      Method r3 = ''PUT'' \<and> (\<exists>p. json_Marshal w obj = Inr p \<and> ReqBody r3 = Some p) \<and>
      carries_headers w c r3) \<and>
   (EvDo r4 \<in> set (fst (DeletebyId w c e)) \<longrightarrow>
      Method r4 = ''DELETE'' \<and> ReqBody r4 = None \<and> carries_headers w c r4)"
proof (intro conjI impI)
  assume "makeRequest w c method url payload = Inr req"
  from makeRequest_Inr [OF this]
  show "Method req = (if method = [] then ''GET'' else method)" "URL req = url"
    "ReqBody req = (if method = ''POST'' \<or> method = ''PUT'' then Some payload else None)"
    "carries_headers w c req"
    by (simp_all add: carries_headers_def)
next
  assume "EvDo r1 \<in> set (fst (Save w c obj e))"
  from Save_sent [OF this] obtain p where p: "json_Marshal w obj = Inr p"
    and mk: "makeRequest w c ''POST'' (resolved_url e) p = Inr r1" by blast
  from makeRequest_Inr [OF mk] p
  show "Method r1 = ''POST''" "\<exists>p. json_Marshal w obj = Inr p \<and> ReqBody r1 = Some p"
    "carries_headers w c r1"
    by (simp_all add: carries_headers_def)
next
  assume "EvDo r2 \<in> set (fst (GetbyId w c e))"
  from makeRequest_Inr [OF GetbyId_sent [OF this]]
  show "Method r2 = ''GET''" "ReqBody r2 = None" "carries_headers w c r2"
    by (simp_all add: carries_headers_def)
next
  assume "EvDo r3 \<in> set (fst (UpdatebyID w c obj e))"
  from UpdatebyID_sent [OF this] obtain p where p: "json_Marshal w obj = Inr p"
    and mk: "makeRequest w c ''PUT'' (resolved_url e) p = Inr r3" by blast
  from makeRequest_Inr [OF mk] p
  show "Method r3 = ''PUT''" "\<exists>p. json_Marshal w obj = Inr p \<and> ReqBody r3 = Some p"
    "carries_headers w c r3"
    by (simp_all add: carries_headers_def)
next
  assume "EvDo r4 \<in> set (fst (DeletebyId w c e))"
  from makeRequest_Inr [OF DeletebyId_sent [OF this]]
  show "Method r4 = ''DELETE''" "ReqBody r4 = None" "carries_headers w c r4"
    by (simp_all add: carries_headers_def)
qed

text \<open>The four operations on \<^verbatim>\<open>v1/domains\<close> in the sample world, with the paced
  client.\<close>

theorem requests_as_constructed_witness:
  "makeRequest sample_world paced_client ''GET'' ''https://api.dns.constellix.com/v1/domains'' []
     = Inr (sample_request ''GET'' ''https://api.dns.constellix.com/v1/domains'' None) \<and>
   fst (Save sample_world paced_client ''{}'' ''v1/domains'')
     = [EvWait \<lparr>limit = EveryNs 500, burst = 1\<rparr>,
        EvDo (sample_request ''POST'' ''https://api.dns.constellix.com/v1/domains'' (Some ''{}''))] \<and>
   fst (GetbyId sample_world paced_client ''v1/domains'')
     = [EvWait \<lparr>limit = EveryNs 500, burst = 1\<rparr>,
        EvDo (sample_request ''GET'' ''https://api.dns.constellix.com/v1/domains'' None)] \<and>
   fst (UpdatebyID sample_world paced_client ''{}'' ''v1/domains'')
     = [EvWait \<lparr>limit = EveryNs 500, burst = 1\<rparr>,
        EvDo (sample_request ''PUT'' ''https://api.dns.constellix.com/v1/domains'' (Some ''{}''))] \<and>
   fst (DeletebyId sample_world paced_client ''v1/domains'')
     = [EvWait \<lparr>limit = EveryNs 500, burst = 1\<rparr>,
        EvDo (sample_request ''DELETE'' ''https://api.dns.constellix.com/v1/domains'' None)] \<and>
   carries_headers sample_world paced_client
     (sample_request ''POST'' ''https://api.dns.constellix.com/v1/domains'' (Some ''{}'')) \<and>
   carries_headers sample_world paced_client
     (sample_request ''GET'' ''https://api.dns.constellix.com/v1/domains'' None) \<and>
   carries_headers sample_world paced_client
     (sample_request ''PUT'' ''https://api.dns.constellix.com/v1/domains'' (Some ''{}'')) \<and>
   carries_headers sample_world paced_client
     (sample_request ''DELETE'' ''https://api.dns.constellix.com/v1/domains'' None)"
proof -
  let ?u = "''https://api.dns.constellix.com/v1/domains''"
  have mk: "makeRequest sample_world paced_client ''GET'' ?u [] = Inr (sample_request ''GET'' ?u None)"
    by (simp add: paced_makeRequest sample_makeRequest)
  have runs:
    "fst (Save sample_world paced_client ''{}'' ''v1/domains'')
       = [EvWait \<lparr>limit = EveryNs 500, burst = 1\<rparr>, EvDo (sample_request ''POST'' ?u (Some ''{}''))]"
    "fst (GetbyId sample_world paced_client ''v1/domains'')
       = [EvWait \<lparr>limit = EveryNs 500, burst = 1\<rparr>, EvDo (sample_request ''GET'' ?u None)]"
    "fst (UpdatebyID sample_world paced_client ''{}'' ''v1/domains'')
       = [EvWait \<lparr>limit = EveryNs 500, burst = 1\<rparr>, EvDo (sample_request ''PUT'' ?u (Some ''{}''))]"
    "fst (DeletebyId sample_world paced_client ''v1/domains'')
       = [EvWait \<lparr>limit = EveryNs 500, burst = 1\<rparr>, EvDo (sample_request ''DELETE'' ?u None)]"
    by (simp_all add: sample_Save paced_GetbyId sample_UpdatebyID paced_DeletebyId
          sample_resolved)
  from requests_as_constructed [of sample_world paced_client "''GET''" ?u "[]"
      "sample_request ''GET'' ?u None" "sample_request ''POST'' ?u (Some ''{}'')" "''{}''"
      "''v1/domains''" "sample_request ''GET'' ?u None" "sample_request ''PUT'' ?u (Some ''{}'')"
      "sample_request ''DELETE'' ?u None"] mk runs
  have "carries_headers sample_world paced_client (sample_request ''POST'' ?u (Some ''{}''))"
    "carries_headers sample_world paced_client (sample_request ''GET'' ?u None)"
    "carries_headers sample_world paced_client (sample_request ''PUT'' ?u (Some ''{}''))"
    "carries_headers sample_world paced_client (sample_request ''DELETE'' ?u None)"
    by simp_all
  with mk runs show ?thesis by simp
qed

subsection \<open>C10: the third piece decides\<close>

text \<open>
  Claim C10 says that the third piece alone decides, and concludes that an endpoint that
  names the secondary host without a scheme is primary and gets the base URL in front.
  The endpoint \<^verbatim>\<open>//api.sonar.constellix.com/v1/x\<close> names the host without a scheme, and
  its third piece is the host: the code takes it as secondary and hands it to the
  transport as it is, with no base URL (a URL without scheme, which the transport
  refuses).
\<close>

theorem third_segment_counterexample:
  "is_secondary ''//api.sonar.constellix.com/v1/x'' \<and>
   GetbyId offline_world sample_client ''//api.sonar.constellix.com/v1/x''
     = ([EvDo (sample_request ''GET'' ''//api.sonar.constellix.com/v1/x'' None)],
        Returns (None, Some ''unsupported protocol scheme''))"
  by (simp add: offline_GetbyId sample_resolved sample_secondary)

text \<open>
  Claim C10 as amended: the third piece alone decides. An endpoint is secondary exactly
  when it has more than two pieces and the third is the secondary host, that is, when it
  is two pieces without a slash, each followed by a slash, then the secondary host, then
  nothing or a slash and more. There is one piece more than there are slashes, and an
  endpoint with fewer than three pieces is primary. For an endpoint of three or more
  pieces, whatever the first two are, it is secondary exactly when the third is the
  secondary host: so \<^verbatim>\<open>api.sonar.constellix.com/v1/x\<close>, which names the host in its first
  piece, is primary, and \<^verbatim>\<open>//api.sonar.constellix.com/v1/x\<close> is secondary. Every request
  that any of the four operations sends goes to the endpoint itself when it is secondary
  and to the base URL followed by the endpoint when it is primary, and a response
  returned by \<open>Save\<close>, \<open>GetbyId\<close> or \<open>UpdatebyID\<close> comes with the result of the secondary
  normalizer in the first case and of the primary one in the second.
\<close>

theorem third_segment_decides:
  "(is_secondary e \<longleftrightarrow>
      length (Split e CHR ''/'') > 2 \<and> Split e CHR ''/'' ! 2 = SonarHost) \<and>
   (is_secondary e \<longleftrightarrow>
      (\<exists>a b rest. CHR ''/'' \<notin> set a \<and> CHR ''/'' \<notin> set b \<and>
         (rest = [] \<or> (\<exists>r. rest = CHR ''/'' # r)) \<and>
         e = a @ ''/'' @ b @ ''/'' @ SonarHost @ rest)) \<and>
   length (Split e CHR ''/'') = Suc (count_list e CHR ''/'') \<and>
   (length (Split e CHR ''/'') < 3 \<longrightarrow> \<not> is_secondary e) \<and>
   (CHR ''/'' \<notin> set s1 \<and> CHR ''/'' \<notin> set s2 \<and> CHR ''/'' \<notin> set s3 \<and>
    (s4 = [] \<or> (\<exists>r. s4 = CHR ''/'' # r))
      \<longrightarrow> (is_secondary (s1 @ ''/'' @ s2 @ ''/'' @ s3 @ s4) \<longleftrightarrow> s3 = SonarHost)) \<and>
   (EvDo r1 \<in> set (fst (Save w c obj e)) \<longrightarrow>
      URL r1 = (if is_secondary e then e else BaseURL @ e)) \<and>
   (EvDo r2 \<in> set (fst (GetbyId w c e)) \<longrightarrow>
      URL r2 = (if is_secondary e then e else BaseURL @ e)) \<and>
   (EvDo r3 \<in> set (fst (UpdatebyID w c obj e)) \<longrightarrow>
      URL r3 = (if is_secondary e then e else BaseURL @ e)) \<and>
   (EvDo r4 \<in> set (fst (DeletebyId w c e)) \<longrightarrow>
      URL r4 = (if is_secondary e then e else BaseURL @ e)) \<and>
   (snd (Save w c obj e) = Returns (Some resp1, err1) \<longrightarrow>
      Returns err1
        = (if is_secondary e then checkForErrorsChecks resp1 else checkForErrors w resp1)) \<and>
   (snd (GetbyId w c e) = Returns (Some resp2, err2) \<longrightarrow>
      Returns err2
        = (if is_secondary e then checkForErrorsChecks resp2 else checkForErrors w resp2)) \<and>
   (snd (UpdatebyID w c obj e) = Returns (Some resp3, err3) \<longrightarrow>
      Returns err3
        = (if is_secondary e then checkForErrorsChecks resp3 else checkForErrors w resp3))"
proof (intro conjI impI)
  show "is_secondary e \<longleftrightarrow> length (Split e CHR ''/'') > 2 \<and> Split e CHR ''/'' ! 2 = SonarHost"
    by (simp add: secondary_test)
  show "is_secondary e \<longleftrightarrow>
      (\<exists>a b rest. CHR ''/'' \<notin> set a \<and> CHR ''/'' \<notin> set b \<and>
         (rest = [] \<or> (\<exists>r. rest = CHR ''/'' # r)) \<and>
         e = a @ ''/'' @ b @ ''/'' @ SonarHost @ rest)"
    by (rule is_secondary_shape)
  show "length (Split e CHR ''/'') = Suc (count_list e CHR ''/'')"
    by (rule length_Split)
next
  assume "length (Split e CHR ''/'') < 3"
  then show "\<not> is_secondary e" by (simp add: is_secondary_def)
next
  assume "CHR ''/'' \<notin> set s1 \<and> CHR ''/'' \<notin> set s2 \<and> CHR ''/'' \<notin> set s3 \<and>
    (s4 = [] \<or> (\<exists>r. s4 = CHR ''/'' # r))"
  then show "is_secondary (s1 @ ''/'' @ s2 @ ''/'' @ s3 @ s4) \<longleftrightarrow> s3 = SonarHost"
    by (intro third_segment) simp_all
next
  assume "EvDo r1 \<in> set (fst (Save w c obj e))"
  from Save_sent [OF this] show "URL r1 = (if is_secondary e then e else BaseURL @ e)"
    by (auto dest!: makeRequest_Inr simp: resolved_url_def)
next
  assume "EvDo r2 \<in> set (fst (GetbyId w c e))"
  from makeRequest_Inr [OF GetbyId_sent [OF this]]
  show "URL r2 = (if is_secondary e then e else BaseURL @ e)"
    by (simp add: resolved_url_def)
next
  assume "EvDo r3 \<in> set (fst (UpdatebyID w c obj e))"
  from UpdatebyID_sent [OF this] show "URL r3 = (if is_secondary e then e else BaseURL @ e)"
    by (auto dest!: makeRequest_Inr simp: resolved_url_def)
next
  assume "EvDo r4 \<in> set (fst (DeletebyId w c e))"
  from makeRequest_Inr [OF DeletebyId_sent [OF this]]
  show "URL r4 = (if is_secondary e then e else BaseURL @ e)"
    by (simp add: resolved_url_def)
next
  assume "snd (Save w c obj e) = Returns (Some resp1, err1)"
  from Save_policy [OF this] show "Returns err1
        = (if is_secondary e then checkForErrorsChecks resp1 else checkForErrors w resp1)"
    by simp
next
  assume "snd (GetbyId w c e) = Returns (Some resp2, err2)"
  from GetbyId_policy [OF this] show "Returns err2
        = (if is_secondary e then checkForErrorsChecks resp2 else checkForErrors w resp2)"
    by simp
next
  assume "snd (UpdatebyID w c obj e) = Returns (Some resp3, err3)"
  from UpdatebyID_policy [OF this] show "Returns err3
        = (if is_secondary e then checkForErrorsChecks resp3 else checkForErrors w resp3)"
    by simp
qed

text \<open>\<^verbatim>\<open>v1/domains\<close> has two pieces. \<^verbatim>\<open>api.sonar.constellix.com/v1/x\<close> has the third piece
  \<^verbatim>\<open>x\<close>: it is primary, goes to
  \<^verbatim>\<open>https://api.dns.constellix.com/api.sonar.constellix.com/v1/x\<close> and its answer is read
  by the primary policy. \<^verbatim>\<open>https://api.sonar.constellix.com/v1/x\<close> has the secondary host
  as third piece: it is sent as it is and its answer is read by the secondary policy.\<close>

theorem third_segment_decides_witness:
  "length (Split ''v1/domains'' CHR ''/'') < 3 \<and> \<not> is_secondary ''v1/domains'' \<and>
   \<not> is_secondary (''api.sonar.constellix.com'' @ ''/'' @ ''v1'' @ ''/'' @ ''x'' @ []) \<and>
   Save sample_world paced_client ''{}'' ''api.sonar.constellix.com/v1/x''
     = ([EvWait \<lparr>limit = EveryNs 500, burst = 1\<rparr>,
         EvDo (sample_request ''POST''
                 ''https://api.dns.constellix.com/api.sonar.constellix.com/v1/x'' (Some ''{}''))],
        Returns (Some sample_response, Some ''badthing'')) \<and>
   GetbyId sample_world paced_client ''api.sonar.constellix.com/v1/x''
     = ([EvWait \<lparr>limit = EveryNs 500, burst = 1\<rparr>,
         EvDo (sample_request ''GET''
                 ''https://api.dns.constellix.com/api.sonar.constellix.com/v1/x'' None)],
        Returns (Some sample_response, Some ''badthing'')) \<and>
   UpdatebyID sample_world paced_client ''{}'' ''api.sonar.constellix.com/v1/x''
     = ([EvWait \<lparr>limit = EveryNs 500, burst = 1\<rparr>,
         EvDo (sample_request ''PUT''
                 ''https://api.dns.constellix.com/api.sonar.constellix.com/v1/x'' (Some ''{}''))],
        Returns (Some sample_response, Some ''badthing'')) \<and>
   fst (DeletebyId sample_world paced_client ''api.sonar.constellix.com/v1/x'')
     = [EvWait \<lparr>limit = EveryNs 500, burst = 1\<rparr>,
        EvDo (sample_request ''DELETE''
                ''https://api.dns.constellix.com/api.sonar.constellix.com/v1/x'' None)] \<and>
   is_secondary ''https://api.sonar.constellix.com/v1/x'' \<and>
   Save sample_world paced_client ''{}'' ''https://api.sonar.constellix.com/v1/x''
     = ([EvWait \<lparr>limit = EveryNs 500, burst = 1\<rparr>,
         EvDo (sample_request ''POST'' ''https://api.sonar.constellix.com/v1/x'' (Some ''{}''))],
        Returns (Some sample_response, Some errors_body)) \<and>
   GetbyId sample_world paced_client ''https://api.sonar.constellix.com/v1/x''
     = ([EvWait \<lparr>limit = EveryNs 500, burst = 1\<rparr>,
         EvDo (sample_request ''GET'' ''https://api.sonar.constellix.com/v1/x'' None)],
        Returns (Some sample_response, Some errors_body)) \<and>
   UpdatebyID sample_world paced_client ''{}'' ''https://api.sonar.constellix.com/v1/x''
     = ([EvWait \<lparr>limit = EveryNs 500, burst = 1\<rparr>,
         EvDo (sample_request ''PUT'' ''https://api.sonar.constellix.com/v1/x'' (Some ''{}''))],
        Returns (Some sample_response, Some errors_body)) \<and>
   fst (DeletebyId sample_world paced_client ''https://api.sonar.constellix.com/v1/x'')
     = [EvWait \<lparr>limit = EveryNs 500, burst = 1\<rparr>,
        EvDo (sample_request ''DELETE'' ''https://api.sonar.constellix.com/v1/x'' None)] \<and>
   URL (sample_request ''GET''
          ''https://api.dns.constellix.com/api.sonar.constellix.com/v1/x'' None)
     = BaseURL @ ''api.sonar.constellix.com/v1/x'' \<and>
   checkForErrors sample_world sample_response = Returns (Some ''badthing'') \<and>
   checkForErrorsChecks sample_response = Returns (Some errors_body)"
proof -
  let ?e = "''api.sonar.constellix.com/v1/x''"
  let ?u = "''https://api.dns.constellix.com/api.sonar.constellix.com/v1/x''"
  let ?q = "''https://api.sonar.constellix.com/v1/x''"
  let ?lim = "EvWait \<lparr>limit = EveryNs 500, burst = 1\<rparr>"
  have few: "length (Split ''v1/domains'' CHR ''/'') < 3" by simp
  from third_segment_decides
         [where e = "''v1/domains''", THEN conjunct2, THEN conjunct2, THEN conjunct2,
          THEN conjunct1] few
  have short: "\<not> is_secondary ''v1/domains''" by simp
  have runs_e:
    "Save sample_world paced_client ''{}'' ?e
       = ([?lim, EvDo (sample_request ''POST'' ?u (Some ''{}''))],
          Returns (Some sample_response, Some ''badthing''))"
    "GetbyId sample_world paced_client ?e
       = ([?lim, EvDo (sample_request ''GET'' ?u None)],
          Returns (Some sample_response, Some ''badthing''))"
    "UpdatebyID sample_world paced_client ''{}'' ?e
       = ([?lim, EvDo (sample_request ''PUT'' ?u (Some ''{}''))],
          Returns (Some sample_response, Some ''badthing''))"
    "fst (DeletebyId sample_world paced_client ?e)
       = [?lim, EvDo (sample_request ''DELETE'' ?u None)]"
    by (simp_all add: sample_Save paced_GetbyId sample_UpdatebyID paced_DeletebyId
          sample_resolved sample_secondary sample_primary_policy)
  have runs_q:
    "Save sample_world paced_client ''{}'' ?q
       = ([?lim, EvDo (sample_request ''POST'' ?q (Some ''{}''))],
          Returns (Some sample_response, Some errors_body))"
    "GetbyId sample_world paced_client ?q
       = ([?lim, EvDo (sample_request ''GET'' ?q None)],
          Returns (Some sample_response, Some errors_body))"
    "UpdatebyID sample_world paced_client ''{}'' ?q
       = ([?lim, EvDo (sample_request ''PUT'' ?q (Some ''{}''))],
          Returns (Some sample_response, Some errors_body))"
    "fst (DeletebyId sample_world paced_client ?q)
       = [?lim, EvDo (sample_request ''DELETE'' ?q None)]"
    by (simp_all add: sample_Save paced_GetbyId sample_UpdatebyID paced_DeletebyId
          sample_resolved sample_secondary sample_secondary_policy)
  from third_segment_decides [of ?e "''api.sonar.constellix.com''" "''v1''" "''x''" "[]"
      "sample_request ''POST'' ?u (Some ''{}'')" sample_world paced_client "''{}''"
      "sample_request ''GET'' ?u None" "sample_request ''PUT'' ?u (Some ''{}'')"
      "sample_request ''DELETE'' ?u None"
      sample_response "Some ''badthing''" sample_response "Some ''badthing''"
      sample_response "Some ''badthing''"] runs_e
  have prim:
    "\<not> is_secondary (''api.sonar.constellix.com'' @ ''/'' @ ''v1'' @ ''/'' @ ''x'' @ [])"
    "URL (sample_request ''GET'' ?u None) = BaseURL @ ?e"
    "checkForErrors sample_world sample_response = Returns (Some ''badthing'')"
    by (simp_all add: sample_secondary SonarHost_def)
  from third_segment_decides [of ?q "''https:''" "[]" "''api.sonar.constellix.com''" "''/v1/x''"
      "sample_request ''POST'' ?q (Some ''{}'')" sample_world paced_client "''{}''"
      "sample_request ''GET'' ?q None" "sample_request ''PUT'' ?q (Some ''{}'')"
      "sample_request ''DELETE'' ?q None"
      sample_response "Some errors_body" sample_response "Some errors_body"
      sample_response "Some errors_body"] runs_q
  have sec: "is_secondary ?q"
    "checkForErrorsChecks sample_response = Returns (Some errors_body)"
    by (simp_all add: sample_secondary SonarHost_def)
  from few short prim sec runs_e runs_q show ?thesis by simp
qed

end
